theory Spec2Isabelle
  imports Complex_Main
begin

section \<open>JavaScript values\<close>

text \<open>
  The two adapters (\<^verbatim>\<open>VpaidLinearAd\<close> and \<^verbatim>\<open>VpaidNonLinear\<close>) are JavaScript
  classes. Their numbers are modelled as exact reals extended with the values that
  JavaScript arithmetic produces where a real number is missing: \<open>NaN\<close>, the two
  infinities, and \<open>Undefined\<close> for a field that was never assigned (it becomes
  \<open>NaN\<close> in arithmetic). The sign of zero is not modelled. The operations \<open>js_add\<close>,
  \<open>js_sub\<close>, \<open>js_mul\<close> and \<open>js_div\<close> are the exact ones; the rounding of IEEE
  doubles is \<open>to_double\<close>, applied to every arithmetic result of
  \<^verbatim>\<open>getAdRemainingTime\<close> in the non-linear adapter.
  The private names of the source end in an underscore (\<^verbatim>\<open>callEvent_\<close>); the
  underscore is dropped here.
\<close>

datatype jsval = Undefined | NaN | NegInf | Num real | PosInf

fun js_neg :: "jsval \<Rightarrow> jsval" where
  "js_neg (Num x) = Num (- x)"
| "js_neg PosInf = NegInf"
| "js_neg NegInf = PosInf"
| "js_neg NaN = NaN"
| "js_neg Undefined = NaN"

fun js_add :: "jsval \<Rightarrow> jsval \<Rightarrow> jsval" where
  "js_add (Num x) (Num y) = Num (x + y)"
| "js_add (Num x) PosInf = PosInf"
| "js_add (Num x) NegInf = NegInf"
| "js_add PosInf (Num y) = PosInf"
| "js_add NegInf (Num y) = NegInf"
| "js_add PosInf PosInf = PosInf"
| "js_add NegInf NegInf = NegInf"
| "js_add _ _ = NaN"

definition js_sub :: "jsval \<Rightarrow> jsval \<Rightarrow> jsval" where
  "js_sub a b = js_add a (js_neg b)"

fun js_mul :: "jsval \<Rightarrow> jsval \<Rightarrow> jsval" where
  "js_mul (Num x) (Num y) = Num (x * y)"
| "js_mul (Num x) PosInf = (if x = 0 then NaN else if 0 < x then PosInf else NegInf)"
| "js_mul (Num x) NegInf = (if x = 0 then NaN else if 0 < x then NegInf else PosInf)"
| "js_mul PosInf (Num y) = (if y = 0 then NaN else if 0 < y then PosInf else NegInf)"
| "js_mul NegInf (Num y) = (if y = 0 then NaN else if 0 < y then NegInf else PosInf)"
| "js_mul PosInf PosInf = PosInf"
| "js_mul NegInf NegInf = PosInf"
| "js_mul PosInf NegInf = NegInf"
| "js_mul NegInf PosInf = NegInf"
| "js_mul _ _ = NaN"

fun js_div :: "jsval \<Rightarrow> jsval \<Rightarrow> jsval" where
  "js_div (Num x) (Num y) =
     (if y \<noteq> 0 then Num (x / y)
      else if x = 0 then NaN else if 0 < x then PosInf else NegInf)"
| "js_div (Num x) PosInf = Num 0"
| "js_div (Num x) NegInf = Num 0"
| "js_div PosInf (Num y) = (if 0 \<le> y then PosInf else NegInf)"
| "js_div NegInf (Num y) = (if 0 \<le> y then NegInf else PosInf)"
| "js_div _ _ = NaN"

text \<open>\<^verbatim>\<open>a >= b\<close>: false as soon as one side is \<open>NaN\<close> (or undefined).\<close>

fun js_ge :: "jsval \<Rightarrow> jsval \<Rightarrow> bool" where
  "js_ge (Num x) (Num y) = (y \<le> x)"
| "js_ge PosInf (Num y) = True"
| "js_ge PosInf PosInf = True"
| "js_ge PosInf NegInf = True"
| "js_ge (Num x) NegInf = True"
| "js_ge NegInf NegInf = True"
| "js_ge _ _ = False"

text \<open>\<^verbatim>\<open>a != b\<close>: \<open>NaN\<close> differs from everything, itself included.\<close>

fun js_ne :: "jsval \<Rightarrow> jsval \<Rightarrow> bool" where
  "js_ne (Num x) (Num y) = (x \<noteq> y)"
| "js_ne PosInf PosInf = False"
| "js_ne NegInf NegInf = False"
| "js_ne Undefined Undefined = False"
| "js_ne _ _ = True"

text \<open>
  The finite IEEE doubles are the reals \<open>m * 2^e\<close> with an integer \<open>m\<close> of less than 53
  bits and \<open>-1074 \<le> e \<le> 971\<close>. An exact result that is a double is the result of the
  double operation; one that is not is rounded by the platform (to the nearest double,
  or to an infinity on overflow). That rounding is the parameter \<open>rnd\<close>: what is proved
  with it holds for every rounding.
\<close>

definition doubles :: "real set" where
  "doubles =
     {x. \<exists>m e :: int. x = of_int m * 2 powr of_int e \<and> \<bar>m\<bar> < 2 ^ 53 \<and> - 1074 \<le> e \<and> e \<le> 971}"

definition to_double :: "(real \<Rightarrow> jsval) \<Rightarrow> jsval \<Rightarrow> jsval" where
  "to_double rnd v = (case v of Num x \<Rightarrow> if x \<in> doubles then Num x else rnd x | _ \<Rightarrow> v)"

datatype js_error = TypeError | ReferenceError | SyntaxError | IndexSizeError

text \<open>
  A method either returns or throws. The fields assigned before a \<^verbatim>\<open>throw\<close> stay
  assigned, so the error carries the state reached: \<open>Inl (e, s)\<close> is "threw \<open>e\<close>,
  leaving the object as \<open>s\<close>", \<open>Inr s\<close> is "returned, leaving the object as \<open>s\<close>".
\<close>

type_synonym 's completion = "(js_error \<times> 's) + 's"

definition state_of :: "'s completion \<Rightarrow> 's" where
  "state_of c = (case c of Inl (e, s) \<Rightarrow> s | Inr s \<Rightarrow> s)"

definition thrown :: "'s completion \<Rightarrow> js_error option" where
  "thrown c = (case c of Inl (e, s) \<Rightarrow> Some e | Inr s \<Rightarrow> None)"

section \<open>The data of an adapter\<close>

datatype jsprim = PBool bool | PStr string

text \<open>The attribute bag \<^verbatim>\<open>attributes_\<close>. The non-linear adapter has no
  \<^verbatim>\<open>remainingTime\<close> key: the field is \<open>Undefined\<close> there.\<close>

record attrs =
  companions :: string
  desiredBitrate :: jsval
  duration :: jsval
  expanded :: bool
  height :: jsval
  icons :: jsprim
  linear_attr :: bool
  remainingTime :: jsval
  skippableState :: bool
  viewMode :: string
  width :: jsval
  volume :: jsval

text \<open>
  The host's callbacks are opaque to the adapter. A callback is an identifier, and
  calling it appends an entry to the log \<open>calls\<close>: the event name it was looked up
  under, the callback, the arguments, and the attributes as they were at the moment of
  the call (what the callback would read through the getters). Callbacks are taken to
  return without calling back into the adapter.
\<close>

type_synonym callback = nat

datatype jsarg = AStr string | ABool bool

record invocation =
  inv_event :: string
  inv_fn :: callback
  inv_args :: "jsarg list"
  inv_seen :: attrs

text \<open>A property of the callback object: \<^verbatim>\<open>null\<close> (what \<^verbatim>\<open>unsubscribe\<close> stores) or
  a function. A key that was never assigned is absent from the map. The names inherited
  from \<^verbatim>\<open>Object.prototype\<close> are not modelled.\<close>

datatype binding = JsNull | Fn callback

text \<open>The creative parameters, as \<^verbatim>\<open>JSON.parse\<close> returns them.\<close>

record ad =
  thumbnailUrl :: "string option"
  title :: "string option"
  sourceName :: "string option"

record videoSource =
  url :: string
  mimetype :: string

record creative =
  c_ads :: "ad list option"
  c_videos :: "videoSource list option"
  c_overlays :: "string list option"

text \<open>The host's video element, with the properties the adapters read and write.
  \<open>playable\<close> lists the mime types for which \<^verbatim>\<open>canPlayType\<close> answers a non-empty
  string; \<open>listeners\<close> the event types a handler was added for.\<close>

record video =
  src :: "string option"
  media_duration :: jsval
  currentTime :: jsval
  media_volume :: jsval
  paused :: bool
  width_attr :: "jsval option"
  height_attr :: "jsval option"
  css_size :: "(jsval \<times> jsval) option"
  css_display :: "string option"
  playable :: "string list"
  listeners :: "string list"

text \<open>The children of the slot element.\<close>

datatype node =
    StyleNode
  | ContainerNode string string string bool
  | VideoNode

text \<open>
  What both classes hold: the slot, the video slot, the attributes; and the part of the
  environment their methods act on: the log of callback calls, the one-shot tasks
  pending from \<^verbatim>\<open>setTimeout\<close> (handle, delay, argument), the handles of the running
  \<^verbatim>\<open>setInterval\<close> timers, the number of timer handles handed out so far (a handle
  is a positive integer), and the number of full-screen requests made.
\<close>

record adapter =
  slot :: "node list option"
  videoSlot :: "video option"
  attributes :: attrs
  calls :: "invocation list"
  timeouts :: "(nat \<times> real \<times> string) list"
  intervals :: "nat list"
  timerCount :: nat
  fullscreenRequests :: nat

record VpaidLinearAd = adapter +
  eventsCallbacks :: "string \<rightharpoonup> binding"
  intervalId :: "nat option"
  lastQuartileIndex :: nat
  parameters :: creative

record VpaidNonLinear = adapter +
  eventCallbacks :: "string \<rightharpoonup> binding"
  startTime :: jsval
  imageUrls :: "string list"
  videos :: "videoSource list"
  ads :: "ad list option"
  timePaused :: jsval
  lastRemainingTime :: jsval
  isPaused :: bool
  pauseStartTime :: jsval

text \<open>The ambient global \<^verbatim>\<open>elem\<close> that \<^verbatim>\<open>expandAd\<close> reads: neither file declares it,
  so it is what the page provides: nothing (reading it is a ReferenceError), a null or
  undefined value, or an object that has or lacks \<^verbatim>\<open>requestFullscreen\<close>.\<close>

datatype elem_global = ElemUndeclared | ElemNullish | ElemObject bool

section \<open>Platform operations\<close>

definition or_empty :: "string option \<Rightarrow> string" where
  "or_empty x = (case x of None \<Rightarrow> [] | Some t \<Rightarrow> t)"

text \<open>\<^verbatim>\<open>setTimeout(f, d, a)\<close> and \<^verbatim>\<open>setInterval\<close>, \<^verbatim>\<open>clearInterval\<close>.\<close>

definition setTimeout :: "real \<Rightarrow> string \<Rightarrow> 'a adapter_scheme \<Rightarrow> 'a adapter_scheme" where
  "setTimeout d a s =
     s\<lparr>timeouts := timeouts s @ [(Suc (timerCount s), d, a)],
       timerCount := Suc (timerCount s)\<rparr>"

definition clearInterval :: "nat \<Rightarrow> 'a adapter_scheme \<Rightarrow> 'a adapter_scheme" where
  "clearInterval h s = s\<lparr>intervals := removeAll h (intervals s)\<rparr>"

text \<open>\<^verbatim>\<open>if (this.intervalId_)\<close>: a handle that is neither null nor 0.\<close>

definition truthy_handle :: "nat option \<Rightarrow> bool" where
  "truthy_handle h = (case h of None \<Rightarrow> False | Some n \<Rightarrow> n \<noteq> 0)"

text \<open>The first video whose mime type the element can play.\<close>

fun first_playable :: "video \<Rightarrow> videoSource list \<Rightarrow> videoSource option" where
  "first_playable v [] = None"
| "first_playable v (x # xs) =
     (if mimetype x \<in> set (playable v) then Some x else first_playable v xs)"

text \<open>Assigning \<^verbatim>\<open>video.volume\<close>: the HTML standard has the setter throw outside
  \<open>[0, 1]\<close>, and the binding throws a TypeError for a value that is not finite.\<close>

definition set_media_volume :: "jsval \<Rightarrow> video \<Rightarrow> js_error + video" where
  "set_media_volume x v =
     (case x of
        Num r \<Rightarrow> (if 0 \<le> r \<and> r \<le> 1 then Inr (v\<lparr>media_volume := Num r\<rparr>)
                  else Inl IndexSizeError)
      | _ \<Rightarrow> Inl TypeError)"

section \<open>VpaidLinearAd\<close>

definition quartileEvents :: "(string \<times> real) list" where
  "quartileEvents =
     [(''AdImpression'', 0),
      (''AdVideoStart'', 0),
      (''AdVideoFirstQuartile'', 25),
      (''AdVideoMidpoint'', 50),
      (''AdVideoThirdQuartile'', 75),
      (''AdVideoComplete'', 100)]"

definition new_attributes :: attrs where
  "new_attributes =
     \<lparr>companions = [], desiredBitrate = Num 256, duration = Num 6, expanded = False,
      height = Num 0, icons = PBool False, linear_attr = True, remainingTime = Num 13,
      skippableState = False, viewMode = ''normal'', width = Num 0, volume = Num 1\<rparr>"

definition new_VpaidLinearAd :: VpaidLinearAd where
  "new_VpaidLinearAd =
     \<lparr>slot = None, videoSlot = None, attributes = new_attributes, calls = [],
      timeouts = [], intervals = [], timerCount = 0, fullscreenRequests = 0,
      eventsCallbacks = Map.empty, intervalId = None, lastQuartileIndex = 0,
      parameters = \<lparr>c_ads = None, c_videos = None, c_overlays = None\<rparr>\<rparr>"

text \<open>\<^verbatim>\<open>this.eventsCallbacks_[e](args)\<close>: calling a property that is absent or null
  is a TypeError.\<close>

definition call_property :: "string \<Rightarrow> jsarg list \<Rightarrow> VpaidLinearAd \<Rightarrow> VpaidLinearAd completion" where
  "call_property e as s =
     (case eventsCallbacks s e of
        None \<Rightarrow> Inl (TypeError, s)
      | Some JsNull \<Rightarrow> Inl (TypeError, s)
      | Some (Fn f) \<Rightarrow>
          Inr (s\<lparr>calls := calls s @
            [\<lparr>inv_event = e, inv_fn = f, inv_args = as, inv_seen = attributes s\<rparr>]\<rparr>))"

definition callEvent :: "string \<Rightarrow> VpaidLinearAd \<Rightarrow> VpaidLinearAd completion" where
  "callEvent eventType s =
     (if eventType \<in> dom (eventsCallbacks s) then call_property eventType [] s else Inr s)"

definition subscribe :: "callback \<Rightarrow> string \<Rightarrow> VpaidLinearAd \<Rightarrow> VpaidLinearAd" where
  "subscribe aCallback eventName s =
     s\<lparr>eventsCallbacks := (eventsCallbacks s)(eventName \<mapsto> Fn aCallback)\<rparr>"

definition unsubscribe :: "string \<Rightarrow> VpaidLinearAd \<Rightarrow> VpaidLinearAd" where
  "unsubscribe eventName s =
     s\<lparr>eventsCallbacks := (eventsCallbacks s)(eventName \<mapsto> JsNull)\<rparr>"

definition overlayOnClick :: "VpaidLinearAd \<Rightarrow> VpaidLinearAd completion" where
  "overlayOnClick s =
     (if ''AdClickThru'' \<in> dom (eventsCallbacks s)
      then call_property ''AdClickThru'' [AStr [], AStr ''0'', ABool True] s
      else Inr s)"

text \<open>\<^verbatim>\<open>timeUpdateHandler_\<close>, called by the video element. Its two blocks are named:
  \<open>reportQuartile\<close> is the test of \<^verbatim>\<open>percentPlayed\<close> against the entry at
  \<^verbatim>\<open>lastQuartileIndex_\<close> (the callback is called directly, not through
  \<^verbatim>\<open>callEvent_\<close>), \<open>syncDuration\<close> the comparison of the stored duration with the
  element's.\<close>

definition reportQuartile :: "video \<Rightarrow> VpaidLinearAd \<Rightarrow> VpaidLinearAd completion" where
  "reportQuartile v s =
     (let percentPlayed = js_div (js_mul (currentTime v) (Num 100)) (media_duration v);
          q = quartileEvents ! lastQuartileIndex s
      in if js_ge percentPlayed (Num (snd q))
         then (case call_property (fst q) [] s of
                 Inl t \<Rightarrow> Inl t
               | Inr s2 \<Rightarrow> Inr (s2\<lparr>lastQuartileIndex := lastQuartileIndex s2 + 1\<rparr>))
         else Inr s)"

definition syncDuration :: "video \<Rightarrow> VpaidLinearAd \<Rightarrow> VpaidLinearAd completion" where
  "syncDuration v s =
     (if js_ne (duration (attributes s)) (media_duration v)
      then callEvent ''AdDurationChange''
             (s\<lparr>attributes := (attributes s)\<lparr>duration := media_duration v\<rparr>\<rparr>)
      else Inr s)"

definition timeUpdateHandler :: "VpaidLinearAd \<Rightarrow> VpaidLinearAd completion" where
  "timeUpdateHandler s =
     (case videoSlot s of
        None \<Rightarrow> Inl (TypeError, s)
      | Some v \<Rightarrow>
          (let s1 = s\<lparr>attributes := (attributes s)
                      \<lparr>remainingTime := js_sub (media_duration v) (currentTime v)\<rparr>\<rparr>
           in if length quartileEvents \<le> lastQuartileIndex s1 then Inr s1
              else (case reportQuartile v s1 of
                      Inl t \<Rightarrow> Inl t
                    | Inr s3 \<Rightarrow> syncDuration v s3)))"

text \<open>\<^verbatim>\<open>updateVideoSlot_\<close>; \<open>fresh\<close> is the element that
  \<^verbatim>\<open>document.createElement('video')\<close> returns when no video slot was passed.\<close>

definition updateVideoSlot :: "video \<Rightarrow> VpaidLinearAd \<Rightarrow> VpaidLinearAd completion" where
  "updateVideoSlot fresh s =
     (case (case videoSlot s of
              Some v \<Rightarrow> Inr (v, s)
            | None \<Rightarrow>
                (case slot s of
                   None \<Rightarrow> Inl (TypeError, s\<lparr>videoSlot := Some fresh\<rparr>)
                 | Some ns \<Rightarrow>
                     Inr (fresh, s\<lparr>videoSlot := Some fresh, slot := Some (ns @ [VideoNode])\<rparr>))) of
        Inl t \<Rightarrow> Inl t
      | Inr (v, s1) \<Rightarrow>
          (case first_playable v (case c_videos (parameters s1) of None \<Rightarrow> [] | Some vs \<Rightarrow> vs) of
             Some x \<Rightarrow> Inr (s1\<lparr>videoSlot := Some (v\<lparr>src := Some (url x)\<rparr>)\<rparr>)
           | None \<Rightarrow> callEvent ''AdError'' s1))"

definition updateVideoPlayerSize :: "VpaidLinearAd \<Rightarrow> VpaidLinearAd" where
  "updateVideoPlayerSize s =
     (case videoSlot s of
        None \<Rightarrow> s
      | Some v \<Rightarrow>
          s\<lparr>videoSlot := Some (v\<lparr>width_attr := Some (width (attributes s)),
                                 height_attr := Some (height (attributes s)),
                                 css_size := Some (width (attributes s), height (attributes s))\<rparr>)\<rparr>)"

text \<open>\<^verbatim>\<open>initAd\<close>. \<open>creativeData\<close> is the value of \<^verbatim>\<open>JSON.parse\<close>, \<open>None\<close> when
  the text is malformed.\<close>

definition initAd ::
  "jsval \<Rightarrow> jsval \<Rightarrow> string \<Rightarrow> jsval \<Rightarrow> creative option \<Rightarrow> node list option \<Rightarrow> video option
     \<Rightarrow> video \<Rightarrow> VpaidLinearAd \<Rightarrow> VpaidLinearAd completion" where
  "initAd w h vm bitrate creativeData env_slot env_videoSlot fresh s =
     (let s1 = s\<lparr>attributes := (attributes s)
                  \<lparr>width := w, height := h, viewMode := vm, desiredBitrate := bitrate\<rparr>,
                slot := env_slot, videoSlot := env_videoSlot\<rparr>
      in case creativeData of
           None \<Rightarrow> Inl (SyntaxError, s1)
         | Some p \<Rightarrow>
             (case updateVideoSlot fresh (s1\<lparr>parameters := p\<rparr>) of
                Inl t \<Rightarrow> Inl t
              | Inr s2 \<Rightarrow>
                  (case videoSlot s2 of
                     None \<Rightarrow> Inl (TypeError, s2)
                   | Some v \<Rightarrow>
                       callEvent ''AdLoaded''
                         (s2\<lparr>videoSlot := Some (v\<lparr>listeners := listeners v @
                               [''timeupdate'', ''ended'', ''play'']\<rparr>)\<rparr>))))"

definition startAd :: "VpaidLinearAd \<Rightarrow> VpaidLinearAd completion" where
  "startAd s =
     (case c_ads (parameters s) of
        None \<Rightarrow> Inl (TypeError, s)
      | Some [] \<Rightarrow> Inl (TypeError, s)
      | Some (a # _) \<Rightarrow>
          (case slot s of
             None \<Rightarrow> Inl (TypeError, s)
           | Some ns \<Rightarrow>
               let s1 = s\<lparr>slot := Some (ns @ [StyleNode,
                            ContainerNode (or_empty (thumbnailUrl a)) (or_empty (title a))
                              (or_empty (sourceName a)) False])\<rparr>
               in (case videoSlot s1 of
                     None \<Rightarrow> Inl (TypeError, s1)
                   | Some v \<Rightarrow>
                       callEvent ''AdStarted'' (s1\<lparr>videoSlot := Some (v\<lparr>paused := False\<rparr>)\<rparr>))))"

definition stopAd :: "VpaidLinearAd \<Rightarrow> VpaidLinearAd completion" where
  "stopAd s =
     (let s1 = (if truthy_handle (intervalId s) then clearInterval (the (intervalId s)) s else s)
      in Inr (setTimeout 75 ''AdStopped'' s1))"

definition setAdVolume :: "jsval \<Rightarrow> VpaidLinearAd \<Rightarrow> VpaidLinearAd completion" where
  "setAdVolume v s =
     (let s1 = s\<lparr>attributes := (attributes s)\<lparr>volume := v\<rparr>\<rparr>
      in case videoSlot s1 of
           None \<Rightarrow> Inl (TypeError, s1)
         | Some vid \<Rightarrow>
             (case set_media_volume (js_div v (Num 100)) vid of
                Inl e \<Rightarrow> Inl (e, s1)
              | Inr vid' \<Rightarrow> callEvent ''AdVolumeChange'' (s1\<lparr>videoSlot := Some vid'\<rparr>)))"

definition getAdVolume :: "VpaidLinearAd \<Rightarrow> jsval" where
  "getAdVolume s = volume (attributes s)"

definition resizeAd :: "jsval \<Rightarrow> jsval \<Rightarrow> string \<Rightarrow> VpaidLinearAd \<Rightarrow> VpaidLinearAd completion" where
  "resizeAd w h vm s =
     callEvent ''AdSizeChange''
       (updateVideoPlayerSize
          (s\<lparr>attributes := (attributes s)\<lparr>width := w, height := h, viewMode := vm\<rparr>\<rparr>))"

definition pauseAd :: "VpaidLinearAd \<Rightarrow> VpaidLinearAd completion" where
  "pauseAd s =
     (case videoSlot s of
        None \<Rightarrow> Inl (TypeError, s)
      | Some v \<Rightarrow>
          (case callEvent ''AdPaused'' (s\<lparr>videoSlot := Some (v\<lparr>paused := True\<rparr>)\<rparr>) of
             Inl t \<Rightarrow> Inl t
           | Inr s1 \<Rightarrow>
               Inr (if truthy_handle (intervalId s1)
                    then clearInterval (the (intervalId s1)) s1 else s1)))"

definition resumeAd :: "VpaidLinearAd \<Rightarrow> VpaidLinearAd completion" where
  "resumeAd s =
     (case videoSlot s of
        None \<Rightarrow> Inl (TypeError, s)
      | Some v \<Rightarrow>
          (case callEvent ''AdPlaying'' (s\<lparr>videoSlot := Some (v\<lparr>paused := False\<rparr>)\<rparr>) of
             Inl t \<Rightarrow> Inl t
           | Inr s1 \<Rightarrow>
               Inr (s1\<lparr>intervalId := Some (Suc (timerCount s1)),
                       intervals := intervals s1 @ [Suc (timerCount s1)],
                       timerCount := Suc (timerCount s1)\<rparr>)))"

text \<open>The function that \<^verbatim>\<open>resumeAd\<close> hands to \<^verbatim>\<open>setInterval\<close>, run once.\<close>

definition intervalCallback :: "VpaidLinearAd \<Rightarrow> VpaidLinearAd completion" where
  "intervalCallback s =
     callEvent ''AdRemainingTimeChange''
       (s\<lparr>attributes := (attributes s)
            \<lparr>remainingTime := js_sub (remainingTime (attributes s)) (Num (1 / 4))\<rparr>\<rparr>)"

text \<open>A pending \<^verbatim>\<open>setTimeout\<close> task coming due: the oldest one is taken off the
  list and \<^verbatim>\<open>callEvent_\<close> is called with its argument. (\<^verbatim>\<open>stopAd\<close> passes the array
  \<^verbatim>\<open>['AdStopped']\<close>, which the \<^verbatim>\<open>in\<close> test and the property read turn into the key
  \<^verbatim>\<open>AdStopped\<close>.)\<close>

definition runTimeout :: "VpaidLinearAd \<Rightarrow> VpaidLinearAd completion" where
  "runTimeout s =
     (case timeouts s of
        [] \<Rightarrow> Inr s
      | (h, d, a) # rest \<Rightarrow> callEvent a (s\<lparr>timeouts := rest\<rparr>))"

definition expandAd :: "elem_global \<Rightarrow> VpaidLinearAd \<Rightarrow> VpaidLinearAd completion" where
  "expandAd elem s =
     (let s1 = s\<lparr>attributes := (attributes s)\<lparr>expanded := True\<rparr>\<rparr>
      in case elem of
           ElemUndeclared \<Rightarrow> Inl (ReferenceError, s1)
         | ElemNullish \<Rightarrow> Inl (TypeError, s1)
         | ElemObject has \<Rightarrow>
             callEvent ''AdExpanded''
               (if has then s1\<lparr>fullscreenRequests := Suc (fullscreenRequests s1)\<rparr> else s1))"

definition getAdExpanded :: "VpaidLinearAd \<Rightarrow> bool" where
  "getAdExpanded s = expanded (attributes s)"

definition collapseAd :: "VpaidLinearAd \<Rightarrow> VpaidLinearAd completion" where
  "collapseAd s = Inr (s\<lparr>attributes := (attributes s)\<lparr>expanded := False\<rparr>\<rparr>)"

definition skipAd :: "VpaidLinearAd \<Rightarrow> VpaidLinearAd completion" where
  "skipAd s = (if skippableState (attributes s) then callEvent ''AdSkipped'' s else Inr s)"

definition getAdRemainingTime :: "VpaidLinearAd \<Rightarrow> jsval" where
  "getAdRemainingTime s = remainingTime (attributes s)"

definition getAdDuration :: "VpaidLinearAd \<Rightarrow> jsval" where
  "getAdDuration s = duration (attributes s)"

section \<open>VpaidNonLinear\<close>

text \<open>The constructor assigns neither \<^verbatim>\<open>videoSlot_\<close>, \<^verbatim>\<open>ads_\<close>, \<^verbatim>\<open>timePaused_\<close>,
  \<^verbatim>\<open>lastRemainingTime_\<close>, \<^verbatim>\<open>pauseStartTime_\<close> nor \<^verbatim>\<open>isPaused_\<close>: they are
  undefined until a method assigns them (\<open>isPaused\<close> is only tested for truth, so
  undefined is \<open>False\<close>). The clock \<^verbatim>\<open>new Date().getTime()\<close> is the argument
  \<open>now\<close> of the methods that read it, in milliseconds.\<close>

definition new_nl_attributes :: attrs where
  "new_nl_attributes =
     \<lparr>companions = [], desiredBitrate = Num 256, duration = Num 10, expanded = False,
      height = Num 0, icons = PStr [], linear_attr = False, remainingTime = Undefined,
      skippableState = False, viewMode = ''normal'', width = Num 0, volume = Num 50\<rparr>"

definition new_VpaidNonLinear :: VpaidNonLinear where
  "new_VpaidNonLinear =
     \<lparr>slot = None, videoSlot = None, attributes = new_nl_attributes, calls = [],
      timeouts = [], intervals = [], timerCount = 0, fullscreenRequests = 0,
      eventCallbacks = Map.empty, startTime = Num 0, imageUrls = [], videos = [],
      ads = None, timePaused = Undefined, lastRemainingTime = Undefined,
      isPaused = False, pauseStartTime = Undefined\<rparr>"

definition nl_call_property ::
  "string \<Rightarrow> jsarg list \<Rightarrow> VpaidNonLinear \<Rightarrow> VpaidNonLinear completion" where
  "nl_call_property e as s =
     (case eventCallbacks s e of
        None \<Rightarrow> Inl (TypeError, s)
      | Some JsNull \<Rightarrow> Inl (TypeError, s)
      | Some (Fn f) \<Rightarrow>
          Inr (s\<lparr>calls := calls s @
            [\<lparr>inv_event = e, inv_fn = f, inv_args = as, inv_seen = attributes s\<rparr>]\<rparr>))"

definition invokeCallback :: "string \<Rightarrow> VpaidNonLinear \<Rightarrow> VpaidNonLinear completion" where
  "invokeCallback eventType s =
     (if eventType \<in> dom (eventCallbacks s) then nl_call_property eventType [] s else Inr s)"

definition nl_subscribe :: "callback \<Rightarrow> string \<Rightarrow> VpaidNonLinear \<Rightarrow> VpaidNonLinear" where
  "nl_subscribe aCallback eventName s =
     s\<lparr>eventCallbacks := (eventCallbacks s)(eventName \<mapsto> Fn aCallback)\<rparr>"

definition nl_unsubscribe :: "string \<Rightarrow> VpaidNonLinear \<Rightarrow> VpaidNonLinear" where
  "nl_unsubscribe eventName s =
     s\<lparr>eventCallbacks := (eventCallbacks s)(eventName \<mapsto> JsNull)\<rparr>"

definition nl_initAd ::
  "jsval \<Rightarrow> jsval \<Rightarrow> string \<Rightarrow> jsval \<Rightarrow> creative option \<Rightarrow> node list option \<Rightarrow> video option
     \<Rightarrow> VpaidNonLinear \<Rightarrow> VpaidNonLinear completion" where
  "nl_initAd w h vm bitrate creativeData env_slot env_videoSlot s =
     (let s1 = s\<lparr>attributes := (attributes s)
                  \<lparr>width := w, height := h, viewMode := vm, desiredBitrate := bitrate\<rparr>,
                slot := env_slot, videoSlot := env_videoSlot\<rparr>
      in case env_videoSlot of
           None \<Rightarrow> Inl (TypeError, s1)
         | Some v \<Rightarrow>
             (let s2 = s1\<lparr>videoSlot := Some (v\<lparr>css_display := Some ''none''\<rparr>)\<rparr>
              in case creativeData of
                   None \<Rightarrow> Inl (SyntaxError, s2)
                 | Some p \<Rightarrow>
                     invokeCallback ''AdLoaded''
                       (s2\<lparr>ads := Some (case c_ads p of None \<Rightarrow> [] | Some x \<Rightarrow> x),
                           imageUrls := (case c_overlays p of None \<Rightarrow> [] | Some x \<Rightarrow> x),
                           videos := (case c_videos p of None \<Rightarrow> [] | Some x \<Rightarrow> x)\<rparr>)))"

definition nl_updateVideoPlayerSize :: "VpaidNonLinear \<Rightarrow> VpaidNonLinear completion" where
  "nl_updateVideoPlayerSize s =
     (case videoSlot s of
        None \<Rightarrow> Inl (TypeError, s)
      | Some v \<Rightarrow>
          Inr (s\<lparr>videoSlot := Some (v\<lparr>width_attr := Some (width (attributes s)),
                                      height_attr := Some (height (attributes s))\<rparr>)\<rparr>))"

text \<open>\<^verbatim>\<open>adsOnClick_\<close> and \<^verbatim>\<open>overlayOnClick_\<close> have the same body.\<close>

definition adsOnClick :: "VpaidNonLinear \<Rightarrow> VpaidNonLinear completion" where
  "adsOnClick s =
     (case nl_call_property ''AdClickThru'' [AStr [], AStr ''0'', ABool True] s of
        Inl t \<Rightarrow> Inl t
      | Inr s1 \<Rightarrow>
          invokeCallback ''AdRemainingTimeChange''
            (s1\<lparr>attributes := (attributes s1)
                  \<lparr>duration := js_add (duration (attributes s1)) (Num 10)\<rparr>\<rparr>))"

definition nl_overlayOnClick :: "VpaidNonLinear \<Rightarrow> VpaidNonLinear completion" where
  "nl_overlayOnClick s =
     (case nl_call_property ''AdClickThru'' [AStr [], AStr ''0'', ABool True] s of
        Inl t \<Rightarrow> Inl t
      | Inr s1 \<Rightarrow>
          invokeCallback ''AdRemainingTimeChange''
            (s1\<lparr>attributes := (attributes s1)
                  \<lparr>duration := js_add (duration (attributes s1)) (Num 10)\<rparr>\<rparr>))"

text \<open>The handler of \<^verbatim>\<open>loadedmetadata\<close> that \<^verbatim>\<open>overlay2OnClick_\<close> adds.\<close>

definition loadedmetadataHandler :: "real \<Rightarrow> VpaidNonLinear \<Rightarrow> VpaidNonLinear completion" where
  "loadedmetadataHandler now s =
     (case videoSlot s of
        None \<Rightarrow> Inl (TypeError, s)
      | Some v \<Rightarrow>
          if js_ne (duration (attributes s)) (media_duration v)
          then invokeCallback ''AdDurationChange''
                 (s\<lparr>attributes := (attributes s)\<lparr>duration := media_duration v\<rparr>,
                    startTime := Num now, timePaused := Num 0\<rparr>)
          else Inr s)"

definition overlay2OnClick :: "VpaidNonLinear \<Rightarrow> VpaidNonLinear completion" where
  "overlay2OnClick s =
     (case invokeCallback ''AdLinearChange''
             (s\<lparr>attributes := (attributes s)\<lparr>linear_attr := True\<rparr>\<rparr>) of
        Inl t \<Rightarrow> Inl t
      | Inr s1 \<Rightarrow>
          (case slot s1 of
             None \<Rightarrow> Inl (TypeError, s1)
           | Some ns \<Rightarrow>
               (let s2 = s1\<lparr>slot := Some []\<rparr>
                in case (case videos s2 of
                           [] \<Rightarrow> invokeCallback ''AdError'' s2
                         | x # xs \<Rightarrow>
                             (case videoSlot s2 of
                                None \<Rightarrow> Inl (TypeError, s2)
                              | Some v \<Rightarrow>
                                  (case first_playable v (x # xs) of
                                     Some y \<Rightarrow> Inr (s2\<lparr>videoSlot := Some (v\<lparr>src := Some (url y)\<rparr>)\<rparr>)
                                   | None \<Rightarrow> invokeCallback ''AdError'' s2))) of
                     Inl t \<Rightarrow> Inl t
                   | Inr s3 \<Rightarrow>
                       (case videoSlot s3 of
                          None \<Rightarrow> Inl (TypeError, s3)
                        | Some v \<Rightarrow>
                            Inr (s3\<lparr>videoSlot := Some
                                   (v\<lparr>listeners := listeners v @ [''loadedmetadata'', ''ended''],
                                      css_display := Some ''block'',
                                      paused := False\<rparr>)\<rparr>)))))"

definition nl_startAd :: "real \<Rightarrow> VpaidNonLinear \<Rightarrow> VpaidNonLinear completion" where
  "nl_startAd now s =
     (case ads s of
        None \<Rightarrow> Inl (TypeError, s)
      | Some [] \<Rightarrow> Inl (TypeError, s)
      | Some (a # _) \<Rightarrow>
          (case slot s of
             None \<Rightarrow> Inl (TypeError, s)
           | Some ns \<Rightarrow>
               (case invokeCallback ''AdStarted''
                       (s\<lparr>slot := Some (ns @ [StyleNode,
                             ContainerNode (or_empty (thumbnailUrl a)) (or_empty (title a))
                               (or_empty (sourceName a)) True]),
                          startTime := Num now,
                          timePaused := Num 0,
                          lastRemainingTime := Num (- 1),
                          isPaused := False\<rparr>) of
                  Inl t \<Rightarrow> Inl t
                | Inr s1 \<Rightarrow> invokeCallback ''AdImpression'' s1)))"

definition nl_stopAd :: "VpaidNonLinear \<Rightarrow> VpaidNonLinear completion" where
  "nl_stopAd s = Inr (setTimeout 75 ''AdStopped'' s)"

definition nl_setAdVolume :: "jsval \<Rightarrow> VpaidNonLinear \<Rightarrow> VpaidNonLinear completion" where
  "nl_setAdVolume v s =
     invokeCallback ''AdVolumeChanged'' (s\<lparr>attributes := (attributes s)\<lparr>volume := v\<rparr>\<rparr>)"

definition nl_getAdVolume :: "VpaidNonLinear \<Rightarrow> jsval" where
  "nl_getAdVolume s = volume (attributes s)"

definition nl_resizeAd ::
  "jsval \<Rightarrow> jsval \<Rightarrow> string \<Rightarrow> VpaidNonLinear \<Rightarrow> VpaidNonLinear completion" where
  "nl_resizeAd w h vm s =
     (case nl_updateVideoPlayerSize
             (s\<lparr>attributes := (attributes s)\<lparr>width := w, height := h, viewMode := vm\<rparr>\<rparr>) of
        Inl t \<Rightarrow> Inl t
      | Inr s1 \<Rightarrow> invokeCallback ''AdSizeChange'' s1)"

definition nl_pauseAd :: "real \<Rightarrow> VpaidNonLinear \<Rightarrow> VpaidNonLinear completion" where
  "nl_pauseAd now s =
     (if \<not> linear_attr (attributes s) then Inr s
      else
        (let s1 = s\<lparr>isPaused := True, pauseStartTime := Num now\<rparr>
         in case videoSlot s1 of
              None \<Rightarrow> Inl (TypeError, s1)
            | Some v \<Rightarrow>
                invokeCallback ''AdPaused'' (s1\<lparr>videoSlot := Some (v\<lparr>paused := True\<rparr>)\<rparr>)))"

definition nl_resumeAd :: "real \<Rightarrow> VpaidNonLinear \<Rightarrow> VpaidNonLinear completion" where
  "nl_resumeAd now s =
     (let s1 = s\<lparr>isPaused := False,
                timePaused := js_add (timePaused s) (js_sub (Num now) (pauseStartTime s))\<rparr>
      in case videoSlot s1 of
           None \<Rightarrow> Inl (TypeError, s1)
         | Some v \<Rightarrow>
             invokeCallback ''AdPlaying'' (s1\<lparr>videoSlot := Some (v\<lparr>paused := False\<rparr>)\<rparr>))"

definition nl_expandAd :: "elem_global \<Rightarrow> VpaidNonLinear \<Rightarrow> VpaidNonLinear completion" where
  "nl_expandAd elem s =
     (let s1 = s\<lparr>attributes := (attributes s)\<lparr>expanded := True\<rparr>\<rparr>
      in case elem of
           ElemUndeclared \<Rightarrow> Inl (ReferenceError, s1)
         | ElemNullish \<Rightarrow> Inl (TypeError, s1)
         | ElemObject has \<Rightarrow>
             invokeCallback ''AdExpanded''
               (if has then s1\<lparr>fullscreenRequests := Suc (fullscreenRequests s1)\<rparr> else s1))"

definition nl_getAdExpanded :: "VpaidNonLinear \<Rightarrow> bool" where
  "nl_getAdExpanded s = expanded (attributes s)"

definition nl_collapseAd :: "VpaidNonLinear \<Rightarrow> VpaidNonLinear completion" where
  "nl_collapseAd s = Inr (s\<lparr>attributes := (attributes s)\<lparr>expanded := False\<rparr>\<rparr>)"

definition nl_skipAd :: "VpaidNonLinear \<Rightarrow> VpaidNonLinear completion" where
  "nl_skipAd s =
     (if skippableState (attributes s) then invokeCallback ''AdSkipped'' s else Inr s)"

text \<open>\<^verbatim>\<open>getAdRemainingTime\<close> returns a value and stores it in
  \<^verbatim>\<open>lastRemainingTime_\<close> unless the ad is paused. Each of its four arithmetic
  operations gives a double.\<close>

definition nl_getAdRemainingTime ::
  "(real \<Rightarrow> jsval) \<Rightarrow> real \<Rightarrow> VpaidNonLinear \<Rightarrow> jsval \<times> VpaidNonLinear" where
  "nl_getAdRemainingTime rnd now s =
     (if isPaused s then (lastRemainingTime s, s)
      else
        (let elapsedTime =
               to_double rnd (js_div
                 (to_double rnd (js_sub
                    (to_double rnd (js_sub (Num now) (startTime s))) (timePaused s)))
                 (Num 1000));
             remaining = to_double rnd (js_sub (duration (attributes s)) elapsedTime)
         in (remaining, s\<lparr>lastRemainingTime := remaining\<rparr>)))"

text \<open>The formula of the specification for the wall-clock strategy,
  remaining = duration - (now - startTime - pausedAccumulated), the elapsed time in
  seconds, in double arithmetic.\<close>

definition spec_remaining :: "(real \<Rightarrow> jsval) \<Rightarrow> real \<Rightarrow> VpaidNonLinear \<Rightarrow> jsval" where
  "spec_remaining rnd now s =
     to_double rnd (js_sub (duration (attributes s))
       (to_double rnd (js_div
          (to_double rnd (js_sub
             (to_double rnd (js_sub (Num now) (startTime s))) (timePaused s)))
          (Num 1000))))"

definition nl_getAdDuration :: "VpaidNonLinear \<Rightarrow> jsval" where
  "nl_getAdDuration s = duration (attributes s)"

text \<open>
  What can happen to a non-linear adapter: the host calls one of its methods, the user
  clicks the container that \<^verbatim>\<open>startAd\<close> mounted (its click listener is the only
  listener the class binds: \<^verbatim>\<open>overlayOnClick_\<close> and \<^verbatim>\<open>overlay2OnClick_\<close> are bound
  only in commented-out lines), or the task queued by \<^verbatim>\<open>stopAd\<close> comes due. A method
  that throws leaves the object as it was at the throw. \<open>nl_run\<close> is a sequence of such
  events.
\<close>

definition nl_runTimeout :: "VpaidNonLinear \<Rightarrow> VpaidNonLinear completion" where
  "nl_runTimeout s =
     (case timeouts s of
        [] \<Rightarrow> Inr s
      | (h, d, a) # rest \<Rightarrow> invokeCallback a (s\<lparr>timeouts := rest\<rparr>))"

fun clickable :: "node \<Rightarrow> bool" where
  "clickable (ContainerNode thumbnail heading source listens) = listens"
| "clickable StyleNode = False"
| "clickable VideoNode = False"

datatype nl_call =
    Call_initAd jsval jsval string jsval "creative option" "node list option" "video option"
  | Call_startAd real
  | Call_stopAd
  | Call_setAdVolume jsval
  | Call_resizeAd jsval jsval string
  | Call_pauseAd real
  | Call_resumeAd real
  | Call_expandAd elem_global
  | Call_collapseAd
  | Call_skipAd
  | Call_subscribe callback string
  | Call_unsubscribe string
  | Call_getAdRemainingTime real
  | Click_container
  | Timeout_due

fun nl_step :: "(real \<Rightarrow> jsval) \<Rightarrow> nl_call \<Rightarrow> VpaidNonLinear \<Rightarrow> VpaidNonLinear" where
  "nl_step rnd (Call_initAd w h vm bitrate creativeData env_slot env_videoSlot) s =
     state_of (nl_initAd w h vm bitrate creativeData env_slot env_videoSlot s)"
| "nl_step rnd (Call_startAd now) s = state_of (nl_startAd now s)"
| "nl_step rnd Call_stopAd s = state_of (nl_stopAd s)"
| "nl_step rnd (Call_setAdVolume v) s = state_of (nl_setAdVolume v s)"
| "nl_step rnd (Call_resizeAd w h vm) s = state_of (nl_resizeAd w h vm s)"
| "nl_step rnd (Call_pauseAd now) s = state_of (nl_pauseAd now s)"
| "nl_step rnd (Call_resumeAd now) s = state_of (nl_resumeAd now s)"
| "nl_step rnd (Call_expandAd elem) s = state_of (nl_expandAd elem s)"
| "nl_step rnd Call_collapseAd s = state_of (nl_collapseAd s)"
| "nl_step rnd Call_skipAd s = state_of (nl_skipAd s)"
| "nl_step rnd (Call_subscribe aCallback eventName) s = nl_subscribe aCallback eventName s"
| "nl_step rnd (Call_unsubscribe eventName) s = nl_unsubscribe eventName s"
| "nl_step rnd (Call_getAdRemainingTime now) s = snd (nl_getAdRemainingTime rnd now s)"
| "nl_step rnd Click_container s =
     (case slot s of
        None \<Rightarrow> s
      | Some ns \<Rightarrow> if list_ex clickable ns then state_of (adsOnClick s) else s)"
| "nl_step rnd Timeout_due s = state_of (nl_runTimeout s)"

fun nl_run :: "(real \<Rightarrow> jsval) \<Rightarrow> nl_call list \<Rightarrow> VpaidNonLinear \<Rightarrow> VpaidNonLinear" where
  "nl_run rnd [] s = s"
| "nl_run rnd (c # cs) s = nl_run rnd cs (nl_step rnd c s)"

section \<open>Feeding time updates\<close>

text \<open>A time update is the video element changing its \<^verbatim>\<open>currentTime\<close> (and possibly
  its \<^verbatim>\<open>duration\<close>) and then calling \<^verbatim>\<open>timeUpdateHandler_\<close>. \<open>feed\<close> delivers a
  list of such samples; a handler that throws leaves the object as it was at the throw,
  and the next sample is delivered all the same. \<open>milestones\<close> are the names of the
  schedule among the callbacks called so far.\<close>

definition percentPlayed :: "video \<Rightarrow> jsval" where
  "percentPlayed v = js_div (js_mul (currentTime v) (Num 100)) (media_duration v)"

definition media_sample :: "jsval \<Rightarrow> jsval \<Rightarrow> VpaidLinearAd \<Rightarrow> VpaidLinearAd" where
  "media_sample t d s =
     s\<lparr>videoSlot := map_option (\<lambda>v. v\<lparr>currentTime := t, media_duration := d\<rparr>) (videoSlot s)\<rparr>"

fun feed :: "(jsval \<times> jsval) list \<Rightarrow> VpaidLinearAd \<Rightarrow> VpaidLinearAd" where
  "feed [] s = s"
| "feed (x # xs) s = feed xs (state_of (timeUpdateHandler (media_sample (fst x) (snd x) s)))"

definition milestones :: "VpaidLinearAd \<Rightarrow> string list" where
  "milestones s = filter (\<lambda>e. e \<in> set (map fst quartileEvents)) (map inv_event (calls s))"

section \<open>Sample adapters\<close>

text \<open>A host that subscribes one callback to every event of the protocol, passes a slot
  and a video element that plays mp4, and a creative with one ad and one video.\<close>

definition sample_video :: video where
  "sample_video =
     \<lparr>src = None, media_duration = Num 6, currentTime = Num 0, media_volume = Num 1,
      paused = True, width_attr = None, height_attr = None, css_size = None,
      css_display = None, playable = [''video/mp4''], listeners = []\<rparr>"

definition sample_creative :: creative where
  "sample_creative =
     \<lparr>c_ads = Some [\<lparr>thumbnailUrl = Some ''t.png'', title = Some ''T'', sourceName = None\<rparr>],
      c_videos = Some [\<lparr>url = ''a.mp4'', mimetype = ''video/mp4''\<rparr>],
      c_overlays = None\<rparr>"

definition host_events :: "string list" where
  "host_events =
     [''AdLoaded'', ''AdStarted'', ''AdImpression'', ''AdVideoStart'',
      ''AdVideoFirstQuartile'', ''AdVideoMidpoint'', ''AdVideoThirdQuartile'',
      ''AdVideoComplete'', ''AdPaused'', ''AdPlaying'', ''AdStopped'', ''AdSkipped'',
      ''AdSizeChange'', ''AdExpanded'', ''AdVolumeChange'', ''AdDurationChange'',
      ''AdRemainingTimeChange'', ''AdLinearChange'', ''AdClickThru'', ''AdError'']"

definition linear_loaded :: VpaidLinearAd where
  "linear_loaded =
     state_of (initAd (Num 640) (Num 480) ''normal'' (Num 256) (Some sample_creative)
       (Some []) (Some sample_video) sample_video
       (fold (subscribe 1) host_events new_VpaidLinearAd))"

definition linear_started :: VpaidLinearAd where
  "linear_started = state_of (startAd linear_loaded)"

definition nl_loaded :: VpaidNonLinear where
  "nl_loaded =
     state_of (nl_initAd (Num 640) (Num 480) ''normal'' (Num 256) (Some sample_creative)
       (Some []) (Some sample_video)
       (fold (nl_subscribe 1) host_events new_VpaidNonLinear))"

definition nl_started :: VpaidNonLinear where
  "nl_started = state_of (nl_startAd 0 nl_loaded)"

text \<open>The started linear adapter after six time updates that take the video to its end.\<close>

definition linear_completed :: VpaidLinearAd where
  "linear_completed =
     feed [(Num 0, Num 6), (Num 1, Num 6), (Num 2, Num 6), (Num 3, Num 6), (Num 5, Num 6),
           (Num 6, Num 6)] linear_started"

text \<open>The attributes that \<^verbatim>\<open>resizeAd\<close> is not given.\<close>

definition other_attributes ::
  "attrs \<Rightarrow> jsval \<times> jsval \<times> bool \<times> bool \<times> bool \<times> string \<times> jsprim \<times> jsval \<times> jsval" where
  "other_attributes a =
     (volume a, duration a, linear_attr a, expanded a, skippableState a, companions a, icons a,
      desiredBitrate a, remainingTime a)"

section \<open>Evaluation and dispatch lemmas\<close>

lemmas linear_defs = initAd_def updateVideoSlot_def callEvent_def call_property_def
  new_VpaidLinearAd_def new_attributes_def sample_video_def sample_creative_def host_events_def
  subscribe_def startAd_def or_empty_def Let_def

lemmas nl_defs = nl_initAd_def invokeCallback_def nl_call_property_def
  new_VpaidNonLinear_def new_nl_attributes_def sample_video_def sample_creative_def host_events_def
  nl_subscribe_def nl_startAd_def or_empty_def Let_def

lemmas feed_defs = milestones_def media_sample_def
       timeUpdateHandler_def reportQuartile_def syncDuration_def quartileEvents_def js_sub_def

lemma state_of_simps [simp]: "state_of (Inr s) = s" "state_of (Inl (e, s)) = s"
  by (simp_all add: state_of_def)

lemma thrown_simps [simp]: "thrown (Inr s) = None" "thrown (Inl (e, s)) = Some e"
  by (simp_all add: thrown_def)

lemma callEvent_Fn:
  "eventsCallbacks s e = Some (Fn f) \<Longrightarrow>
   callEvent e s = Inr (s\<lparr>calls := calls s @
      [\<lparr>inv_event = e, inv_fn = f, inv_args = [], inv_seen = attributes s\<rparr>]\<rparr>)"
  by (simp add: callEvent_def call_property_def dom_def)

lemma callEvent_None: "eventsCallbacks s e = None \<Longrightarrow> callEvent e s = Inr s"
  by (simp add: callEvent_def dom_def)

lemma callEvent_Null: "eventsCallbacks s e = Some JsNull \<Longrightarrow> callEvent e s = Inl (TypeError, s)"
  by (simp add: callEvent_def call_property_def dom_def)

lemma invokeCallback_Fn:
  "eventCallbacks s e = Some (Fn f) \<Longrightarrow>
   invokeCallback e s = Inr (s\<lparr>calls := calls s @
      [\<lparr>inv_event = e, inv_fn = f, inv_args = [], inv_seen = attributes s\<rparr>]\<rparr>)"
  by (simp add: invokeCallback_def nl_call_property_def dom_def)

lemma invokeCallback_None: "eventCallbacks s e = None \<Longrightarrow> invokeCallback e s = Inr s"
  by (simp add: invokeCallback_def dom_def)

lemma invokeCallback_Null:
  "eventCallbacks s e = Some JsNull \<Longrightarrow> invokeCallback e s = Inl (TypeError, s)"
  by (simp add: invokeCallback_def nl_call_property_def dom_def)

lemma call_property_cases:
  "(call_property e as s = Inl (TypeError, s) \<and> (\<forall>f. eventsCallbacks s e \<noteq> Some (Fn f)))
   \<or> (\<exists>f. eventsCallbacks s e = Some (Fn f) \<and> call_property e as s = Inr (s\<lparr>calls := calls s @
          [\<lparr>inv_event = e, inv_fn = f, inv_args = as, inv_seen = attributes s\<rparr>]\<rparr>))"
  by (auto simp: call_property_def split: option.splits binding.splits)

lemma callEvent_frame:
  "lastQuartileIndex (state_of (callEvent e s)) = lastQuartileIndex s"
  "attributes (state_of (callEvent e s)) = attributes s"
  "calls (state_of (callEvent e s)) = calls s \<or>
   (\<exists>f. eventsCallbacks s e = Some (Fn f) \<and> calls (state_of (callEvent e s)) = calls s @
      [\<lparr>inv_event = e, inv_fn = f, inv_args = [], inv_seen = attributes s\<rparr>])"
  by (auto simp: callEvent_def call_property_def split: option.splits binding.splits)

lemma linear_started_video:
  "videoSlot linear_started = Some (sample_video\<lparr>src := Some ''a.mp4'',
      listeners := [''timeupdate'', ''ended'', ''play''], paused := False\<rparr>)"
  by (simp add: linear_started_def linear_loaded_def linear_defs)

lemma linear_started_index: "lastQuartileIndex linear_started = 0"
  by (simp add: linear_started_def linear_loaded_def linear_defs)

lemma linear_started_callbacks:
  "eventsCallbacks linear_started e = (if e \<in> set host_events then Some (Fn 1) else None)"
  by (simp add: linear_started_def linear_loaded_def linear_defs)

lemma linear_loaded_facts:
  "c_ads (parameters linear_loaded) =
     Some [\<lparr>thumbnailUrl = Some ''t.png'', title = Some ''T'', sourceName = None\<rparr>]"
  "slot linear_loaded = Some []"
  "videoSlot linear_loaded = Some (sample_video\<lparr>src := Some ''a.mp4'',
      listeners := [''timeupdate'', ''ended'', ''play'']\<rparr>)"
  "eventsCallbacks linear_loaded e = (if e \<in> set host_events then Some (Fn 1) else None)"
  "lastQuartileIndex linear_loaded = 0"
  by (simp_all add: linear_loaded_def linear_defs)

lemma nl_loaded_facts:
  "ads nl_loaded =
     Some [\<lparr>thumbnailUrl = Some ''t.png'', title = Some ''T'', sourceName = None\<rparr>]"
  "slot nl_loaded = Some []"
  "videoSlot nl_loaded = Some (sample_video\<lparr>css_display := Some ''none''\<rparr>)"
  "eventCallbacks nl_loaded e = (if e \<in> set host_events then Some (Fn 1) else None)"
  by (simp_all add: nl_loaded_def nl_defs)

lemma in_host_events:
  "''AdStarted'' \<in> set host_events" "''AdImpression'' \<in> set host_events"
  "''AdPlaying'' \<in> set host_events" "''AdExpanded'' \<in> set host_events"
  "''AdSizeChange'' \<in> set host_events" "''AdVolumeChange'' \<in> set host_events"
  "''AdDurationChange'' \<in> set host_events" "''AdVolumeChanged'' \<notin> set host_events"
  by (simp_all add: host_events_def)

lemma linear_completed_facts:
  "lastQuartileIndex linear_completed = 6"
  "duration (attributes linear_completed) = Num 6"
  "eventsCallbacks linear_completed ''AdDurationChange'' = Some (Fn 1)"
  "map inv_event (calls linear_completed) =
     [''AdLoaded'', ''AdStarted'', ''AdImpression'', ''AdVideoStart'', ''AdVideoFirstQuartile'',
      ''AdVideoMidpoint'', ''AdVideoThirdQuartile'', ''AdVideoComplete'']"
  "videoSlot linear_completed = Some (sample_video\<lparr>src := Some ''a.mp4'',
      listeners := [''timeupdate'', ''ended'', ''play''], paused := False,
      currentTime := Num 6\<rparr>)"
  by (simp_all add: linear_completed_def linear_started_def linear_loaded_def linear_defs feed_defs)

section \<open>C1: dispatch after unsubscribe\<close>

text \<open>
  C1 says that after \<^verbatim>\<open>unsubscribe(e)\<close> a dispatch of \<open>e\<close> is a silent no-op, and
  that no dispatch without a live subscriber throws. The code stores \<^verbatim>\<open>null\<close> under
  the key, the test \<^verbatim>\<open>e in eventsCallbacks_\<close> still succeeds, and calling
  \<^verbatim>\<open>null\<close> throws: for every event name and every adapter, the dispatch that follows
  an unsubscribe is a TypeError, in both classes. The click handler of the non-linear
  adapter calls the \<^verbatim>\<open>AdClickThru\<close> property with no test at all, so it throws on a
  new adapter; the linear one tests with \<^verbatim>\<open>in\<close> and throws after an unsubscribe.
\<close>

theorem unsubscribe_then_dispatch_throws:
  "callEvent e (unsubscribe e s) = Inl (TypeError, unsubscribe e s)
   \<and> invokeCallback e (nl_unsubscribe e t) = Inl (TypeError, nl_unsubscribe e t)
   \<and> adsOnClick new_VpaidNonLinear = Inl (TypeError, new_VpaidNonLinear)
   \<and> overlayOnClick (unsubscribe ''AdClickThru'' s) = Inl (TypeError, unsubscribe ''AdClickThru'' s)"
  by (simp add: callEvent_Null invokeCallback_Null unsubscribe_def nl_unsubscribe_def
      adsOnClick_def nl_call_property_def new_VpaidNonLinear_def overlayOnClick_def call_property_def)

section \<open>C2: the quartile reporter\<close>

lemma not_milestone: "''AdDurationChange'' \<notin> set (map fst quartileEvents)"
  by (simp add: quartileEvents_def)

lemma syncDuration_keeps:
  "lastQuartileIndex (state_of (syncDuration v s)) = lastQuartileIndex s
   \<and> milestones (state_of (syncDuration v s)) = milestones s"
proof -
  let ?t = "s\<lparr>attributes := (attributes s)\<lparr>duration := media_duration v\<rparr>\<rparr>"
  have "milestones (state_of (callEvent ''AdDurationChange'' ?t)) = milestones ?t"
    using callEvent_frame(3) [of "''AdDurationChange''" ?t] not_milestone
    by (auto simp: milestones_def)
  moreover have "milestones ?t = milestones s" by (simp add: milestones_def)
  ultimately show ?thesis
    by (simp add: syncDuration_def callEvent_frame(1))
qed

lemma reportQuartile_step:
  assumes "lastQuartileIndex s < length quartileEvents"
  shows "(reportQuartile v s = Inr s)
     \<or> (reportQuartile v s = Inl (TypeError, s))
     \<or> (\<exists>s'. reportQuartile v s = Inr s' \<and> lastQuartileIndex s' = Suc (lastQuartileIndex s)
          \<and> milestones s' = milestones s @ [fst (quartileEvents ! lastQuartileIndex s)])"
proof -
  let ?e = "fst (quartileEvents ! lastQuartileIndex s)"
  have mem: "?e \<in> fst ` set quartileEvents"
    using assms by (intro imageI nth_mem)
  from call_property_cases [of ?e "[]" s] consider
      (threw) "call_property ?e [] s = Inl (TypeError, s)"
    | (called) f where "call_property ?e [] s = Inr (s\<lparr>calls := calls s @
          [\<lparr>inv_event = ?e, inv_fn = f, inv_args = [], inv_seen = attributes s\<rparr>]\<rparr>)"
    by blast
  then show ?thesis
  proof cases
    case threw
    then show ?thesis by (simp add: reportQuartile_def Let_def)
  next
    case called
    then show ?thesis using mem by (simp add: reportQuartile_def Let_def milestones_def)
  qed
qed

lemma timeUpdate_step:
  "(lastQuartileIndex (state_of (timeUpdateHandler s)) = lastQuartileIndex s
      \<and> milestones (state_of (timeUpdateHandler s)) = milestones s)
   \<or> (lastQuartileIndex s < length quartileEvents
      \<and> lastQuartileIndex (state_of (timeUpdateHandler s)) = Suc (lastQuartileIndex s)
      \<and> milestones (state_of (timeUpdateHandler s)) =
          milestones s @ [fst (quartileEvents ! lastQuartileIndex s)])"
proof (cases "videoSlot s")
  case None
  then show ?thesis by (simp add: timeUpdateHandler_def)
next
  case (Some v)
  let ?s1 = "s\<lparr>attributes := (attributes s)
                 \<lparr>remainingTime := js_sub (media_duration v) (currentTime v)\<rparr>\<rparr>"
  have s1: "lastQuartileIndex ?s1 = lastQuartileIndex s" "milestones ?s1 = milestones s"
    by (simp_all add: milestones_def)
  show ?thesis
  proof (cases "length quartileEvents \<le> lastQuartileIndex s")
    case True
    then show ?thesis using Some s1 by (simp add: timeUpdateHandler_def Let_def)
  next
    case False
    then have lt: "lastQuartileIndex ?s1 < length quartileEvents" by simp
    have tu: "timeUpdateHandler s =
        (case reportQuartile v ?s1 of Inl t \<Rightarrow> Inl t | Inr s3 \<Rightarrow> syncDuration v s3)"
      using Some False by (simp add: timeUpdateHandler_def Let_def)
    from reportQuartile_step [OF lt, of v] consider
        (same) "reportQuartile v ?s1 = Inr ?s1"
      | (threw) "reportQuartile v ?s1 = Inl (TypeError, ?s1)"
      | (fired) s' where "reportQuartile v ?s1 = Inr s'"
          "lastQuartileIndex s' = Suc (lastQuartileIndex ?s1)"
          "milestones s' = milestones ?s1 @ [fst (quartileEvents ! lastQuartileIndex ?s1)]"
      by blast
    then show ?thesis
    proof cases
      case same
      then show ?thesis using tu s1 syncDuration_keeps [of v ?s1] by simp
    next
      case threw
      then show ?thesis using tu s1 by simp
    next
      case fired
      then show ?thesis using tu s1 syncDuration_keeps [of v s'] False by simp
    qed
  qed
qed

lemma media_sample_keeps [simp]:
  "lastQuartileIndex (media_sample t d s) = lastQuartileIndex s"
  "milestones (media_sample t d s) = milestones s"
  "eventsCallbacks (media_sample t d s) = eventsCallbacks s"
  by (simp_all add: media_sample_def milestones_def)

lemma feed_run:
  "lastQuartileIndex s \<le> lastQuartileIndex (feed xs s)
   \<and> lastQuartileIndex (feed xs s) \<le> lastQuartileIndex s + length xs
   \<and> lastQuartileIndex (feed xs s) \<le> max (lastQuartileIndex s) (length quartileEvents)
   \<and> milestones (feed xs s) = milestones s @
        map fst (take (lastQuartileIndex (feed xs s) - lastQuartileIndex s)
                   (drop (lastQuartileIndex s) quartileEvents))"
proof (induction xs arbitrary: s)
  case Nil
  show ?case by simp
next
  case (Cons x xs)
  let ?m = "media_sample (fst x) (snd x) s"
  let ?s1 = "state_of (timeUpdateHandler ?m)"
  note IH = Cons.IH [of ?s1]
  from timeUpdate_step [of ?m] show ?case
  proof (elim disjE conjE)
    assume "lastQuartileIndex ?s1 = lastQuartileIndex ?m" "milestones ?s1 = milestones ?m"
    then show ?thesis using IH by simp
  next
    assume a: "lastQuartileIndex ?m < length quartileEvents"
      "lastQuartileIndex ?s1 = Suc (lastQuartileIndex ?m)"
      "milestones ?s1 = milestones ?m @ [fst (quartileEvents ! lastQuartileIndex ?m)]"
    let ?i = "lastQuartileIndex s" and ?j = "lastQuartileIndex (feed xs ?s1)"
    have i1: "lastQuartileIndex ?s1 = Suc ?i" and lt: "?i < length quartileEvents"
      using a by simp_all
    have ge: "Suc ?i \<le> ?j" using IH i1 by simp
    then have diff: "?j - ?i = Suc (?j - Suc ?i)" by simp
    have "map fst (take (?j - ?i) (drop ?i quartileEvents)) =
          fst (quartileEvents ! ?i) # map fst (take (?j - Suc ?i) (drop (Suc ?i) quartileEvents))"
      using lt by (simp add: diff Cons_nth_drop_Suc [symmetric])
    then show ?thesis using IH i1 a lt ge by simp
  qed
qed

lemma timeUpdate_fires:
  assumes "videoSlot s = Some v" "lastQuartileIndex s < length quartileEvents"
    "eventsCallbacks s (fst (quartileEvents ! lastQuartileIndex s)) = Some (Fn f)"
  shows "lastQuartileIndex (state_of (timeUpdateHandler s)) =
          (if js_ge (percentPlayed v) (Num (snd (quartileEvents ! lastQuartileIndex s)))
           then Suc (lastQuartileIndex s) else lastQuartileIndex s)"
proof -
  let ?s1 = "s\<lparr>attributes := (attributes s)
                 \<lparr>remainingTime := js_sub (media_duration v) (currentTime v)\<rparr>\<rparr>"
  have tu: "timeUpdateHandler s =
      (case reportQuartile v ?s1 of Inl t \<Rightarrow> Inl t | Inr s3 \<Rightarrow> syncDuration v s3)"
    using assms by (simp add: timeUpdateHandler_def Let_def)
  show ?thesis
  proof (cases "js_ge (percentPlayed v) (Num (snd (quartileEvents ! lastQuartileIndex s)))")
    case True
    then have "reportQuartile v ?s1 = Inr (?s1\<lparr>calls := calls s @
        [\<lparr>inv_event = fst (quartileEvents ! lastQuartileIndex s), inv_fn = f, inv_args = [],
          inv_seen = attributes ?s1\<rparr>], lastQuartileIndex := Suc (lastQuartileIndex s)\<rparr>)"
      using assms by (simp add: reportQuartile_def Let_def call_property_def percentPlayed_def)
    then show ?thesis using tu True syncDuration_keeps by simp
  next
    case False
    then have "reportQuartile v ?s1 = Inr ?s1"
      by (simp add: reportQuartile_def Let_def percentPlayed_def)
    then show ?thesis using tu False syncDuration_keeps [of v ?s1] by simp
  qed
qed




section \<open>C3: what startAd dispatches\<close>

lemma resumeAd_calls:
  "\<exists>l. calls (state_of (resumeAd s)) = calls s @ l \<and> set (map inv_event l) \<subseteq> {''AdPlaying''}"
  by (auto simp: resumeAd_def callEvent_def call_property_def
      split: option.splits binding.splits)

lemma nl_resumeAd_calls:
  "\<exists>l. calls (state_of (nl_resumeAd now t)) = calls t @ l
       \<and> set (map inv_event l) \<subseteq> {''AdPlaying''}"
  by (auto simp: nl_resumeAd_def invokeCallback_def nl_call_property_def Let_def
      split: option.splits binding.splits)

lemma nl_startAd_calls:
  assumes "ads t = Some (a # as)" "slot t = Some ns"
    "eventCallbacks t ''AdStarted'' = Some (Fn f)" "eventCallbacks t ''AdImpression'' = Some (Fn g)"
  shows "\<exists>t'. nl_startAd now t = Inr t' \<and> calls t' = calls t @
      [\<lparr>inv_event = ''AdStarted'', inv_fn = f, inv_args = [], inv_seen = attributes t\<rparr>,
       \<lparr>inv_event = ''AdImpression'', inv_fn = g, inv_args = [], inv_seen = attributes t\<rparr>]"
  using assms by (simp add: nl_startAd_def invokeCallback_def nl_call_property_def dom_def)

lemma startAd_calls:
  assumes "c_ads (parameters s) = Some (a # as)" "slot s = Some ns" "videoSlot s = Some v"
    "eventsCallbacks s ''AdStarted'' = Some (Fn f)"
  shows "\<exists>s'. startAd s = Inr s' \<and> lastQuartileIndex s' = lastQuartileIndex s \<and> calls s' = calls s @
      [\<lparr>inv_event = ''AdStarted'', inv_fn = f, inv_args = [], inv_seen = attributes s\<rparr>]"
  using assms by (simp add: startAd_def callEvent_def call_property_def dom_def Let_def)

lemma first_time_update_impression:
  assumes "videoSlot s = Some v" "lastQuartileIndex s = 0"
    "eventsCallbacks s ''AdImpression'' = Some (Fn g)" "js_ge (percentPlayed v) (Num 0)"
  shows "lastQuartileIndex (state_of (timeUpdateHandler s)) = 1
    \<and> milestones (state_of (timeUpdateHandler s)) = milestones s @ [''AdImpression'']"
proof -
  have q0: "quartileEvents ! 0 = (''AdImpression'', 0)" "0 < length quartileEvents"
    by (simp_all add: quartileEvents_def)
  have idx: "lastQuartileIndex (state_of (timeUpdateHandler s)) = 1"
    using timeUpdate_fires [of s v g] assms q0 by simp
  from timeUpdate_step [of s] idx assms(2) q0 show ?thesis by simp
qed

lemma no_impression_after_first:
  assumes "1 \<le> lastQuartileIndex s"
  shows "\<exists>l. milestones (feed xs s) = milestones s @ l \<and> ''AdImpression'' \<notin> set l"
proof -
  let ?l = "map fst (take (lastQuartileIndex (feed xs s) - lastQuartileIndex s)
                   (drop (lastQuartileIndex s) quartileEvents))"
  have "set (take (lastQuartileIndex (feed xs s) - lastQuartileIndex s)
                   (drop (lastQuartileIndex s) quartileEvents)) \<subseteq> set (drop 1 quartileEvents)"
    using assms set_take_subset set_drop_subset_set_drop by (metis subset_trans)
  then have "set ?l \<subseteq> fst ` set (drop 1 quartileEvents)" by auto
  moreover have "''AdImpression'' \<notin> fst ` set (drop 1 quartileEvents)"
    by (simp add: quartileEvents_def)
  ultimately have "''AdImpression'' \<notin> set ?l" by blast
  then show ?thesis using feed_run [of s xs] by blast
qed

text \<open>
  C3, as amended. In the non-linear adapter a \<^verbatim>\<open>startAd\<close> that does not throw calls
  the subscriber of \<^verbatim>\<open>AdStarted\<close> and then the subscriber of \<^verbatim>\<open>AdImpression\<close>, once
  each. In the linear adapter \<^verbatim>\<open>startAd\<close> calls the subscriber of \<^verbatim>\<open>AdStarted\<close> only
  and leaves the cursor of the schedule where it was: \<^verbatim>\<open>AdImpression\<close> is the first
  entry of the schedule, called by the first time update (at a percent-played of at least
  0), and by no time update once the cursor has passed it. In neither adapter does
  \<^verbatim>\<open>resumeAd\<close> call anything but the \<^verbatim>\<open>AdPlaying\<close> subscriber.
\<close>

theorem startAd_impression_by_variant:
  "(ads t = Some (a # as) \<and> slot t = Some ns
      \<and> eventCallbacks t ''AdStarted'' = Some (Fn f)
      \<and> eventCallbacks t ''AdImpression'' = Some (Fn g)
    \<longrightarrow> (\<exists>t'. nl_startAd now t = Inr t' \<and> calls t' = calls t @
          [\<lparr>inv_event = ''AdStarted'', inv_fn = f, inv_args = [], inv_seen = attributes t\<rparr>,
           \<lparr>inv_event = ''AdImpression'', inv_fn = g, inv_args = [], inv_seen = attributes t\<rparr>]))
   \<and> (c_ads (parameters s) = Some (b # bs) \<and> slot s = Some ms \<and> videoSlot s = Some v
      \<and> eventsCallbacks s ''AdStarted'' = Some (Fn f)
    \<longrightarrow> (\<exists>s'. startAd s = Inr s' \<and> lastQuartileIndex s' = lastQuartileIndex s \<and> calls s' = calls s @
          [\<lparr>inv_event = ''AdStarted'', inv_fn = f, inv_args = [], inv_seen = attributes s\<rparr>]))
   \<and> (videoSlot s = Some v \<and> lastQuartileIndex s = 0
      \<and> eventsCallbacks s ''AdImpression'' = Some (Fn g) \<and> js_ge (percentPlayed v) (Num 0)
    \<longrightarrow> lastQuartileIndex (state_of (timeUpdateHandler s)) = 1
      \<and> milestones (state_of (timeUpdateHandler s)) = milestones s @ [''AdImpression''])
   \<and> (1 \<le> lastQuartileIndex u
    \<longrightarrow> (\<exists>l. milestones (feed xs u) = milestones u @ l \<and> ''AdImpression'' \<notin> set l))
   \<and> (\<exists>l. calls (state_of (resumeAd s)) = calls s @ l \<and> set (map inv_event l) \<subseteq> {''AdPlaying''})
   \<and> (\<exists>l. calls (state_of (nl_resumeAd now t)) = calls t @ l
         \<and> set (map inv_event l) \<subseteq> {''AdPlaying''})"
  using nl_startAd_calls [of t a as ns f g now] startAd_calls [of s b bs ms v f]
    first_time_update_impression [of s v g] no_impression_after_first [of u xs]
    resumeAd_calls [of s] nl_resumeAd_calls [of now t]
  by blast

text \<open>The witness: the two loaded sample adapters are started, and the linear one is
  given a first time update and then one at 100%.\<close>

theorem startAd_impression_by_variant_witness:
  "(\<exists>t'. nl_startAd 0 nl_loaded = Inr t' \<and> map inv_event (calls t') =
        map inv_event (calls nl_loaded) @ [''AdStarted'', ''AdImpression''])
   \<and> (\<exists>s'. startAd linear_loaded = Inr s' \<and> map inv_event (calls s') =
        map inv_event (calls linear_loaded) @ [''AdStarted''])
   \<and> milestones (state_of (timeUpdateHandler linear_started)) = [''AdImpression'']
   \<and> (\<exists>l. milestones (feed [(Num 6, Num 6)] (state_of (timeUpdateHandler linear_started)))
          = [''AdImpression''] @ l \<and> ''AdImpression'' \<notin> set l)"
proof -
  let ?u = "state_of (timeUpdateHandler linear_started)"
  have ms: "milestones linear_started = []"
    by (simp add: linear_started_def linear_loaded_def linear_defs feed_defs)
  have pp: "js_ge (percentPlayed (sample_video\<lparr>src := Some ''a.mp4'',
      listeners := [''timeupdate'', ''ended'', ''play''], paused := False\<rparr>)) (Num 0)"
    by (simp add: percentPlayed_def sample_video_def)
  have u1: "1 \<le> lastQuartileIndex ?u"
    using timeUpdate_fires [of linear_started _ 1] linear_started_video linear_started_index
      linear_started_callbacks pp
    by (simp add: quartileEvents_def host_events_def percentPlayed_def sample_video_def)
  show ?thesis
    using startAd_impression_by_variant
      [of nl_loaded "\<lparr>thumbnailUrl = Some ''t.png'', title = Some ''T'', sourceName = None\<rparr>"
        "[]" "[]" 1 1 0 linear_loaded
        "\<lparr>thumbnailUrl = Some ''t.png'', title = Some ''T'', sourceName = None\<rparr>" "[]" "[]"
        "sample_video\<lparr>src := Some ''a.mp4'',
           listeners := [''timeupdate'', ''ended'', ''play'']\<rparr>" ?u "[(Num 6, Num 6)]"]
      startAd_impression_by_variant
      [of nl_loaded "\<lparr>thumbnailUrl = Some ''t.png'', title = Some ''T'', sourceName = None\<rparr>"
        "[]" "[]" 1 1 0 linear_started
        "\<lparr>thumbnailUrl = Some ''t.png'', title = Some ''T'', sourceName = None\<rparr>" "[]" "[]"
        "sample_video\<lparr>src := Some ''a.mp4'',
           listeners := [''timeupdate'', ''ended'', ''play''], paused := False\<rparr>" ?u "[(Num 6, Num 6)]"]
      linear_loaded_facts nl_loaded_facts in_host_events linear_started_video
      linear_started_index linear_started_callbacks pp u1 ms
    by auto
qed

text \<open>C3 as stated fails for the linear adapter: with a subscriber for
  \<^verbatim>\<open>AdImpression\<close>, \<^verbatim>\<open>startAd\<close> returns having called \<^verbatim>\<open>AdStarted\<close> only.\<close>

theorem linear_startAd_without_impression:
  "thrown (startAd linear_loaded) = None
   \<and> eventsCallbacks linear_loaded ''AdImpression'' = Some (Fn 1)
   \<and> map inv_event (calls (state_of (startAd linear_loaded))) = [''AdLoaded'', ''AdStarted'']"
  by (simp add: linear_loaded_def linear_defs)

section \<open>C4: operations called out of turn\<close>

lemma collapseAd_unexpanded:
  "\<not> expanded (attributes s) \<Longrightarrow> collapseAd s = Inr s"
  "\<not> expanded (attributes t) \<Longrightarrow> nl_collapseAd t = Inr t"
proof -
  have a: "\<not> expanded a \<Longrightarrow> a\<lparr>expanded := False\<rparr> = a" for a :: attrs
    by (cases a) simp
  show "\<not> expanded (attributes s) \<Longrightarrow> collapseAd s = Inr s"
    by (simp add: collapseAd_def a)
  show "\<not> expanded (attributes t) \<Longrightarrow> nl_collapseAd t = Inr t"
    by (simp add: nl_collapseAd_def a)
qed

text \<open>
  C4, as amended. Neither class keeps a lifecycle state, and no method checks that it is
  called in turn, so a call out of turn is not absorbed in general. \<^verbatim>\<open>resumeAd\<close> on an
  adapter without a video slot (Unstarted, before \<^verbatim>\<open>initAd\<close>) throws a TypeError. On an
  adapter with a video slot, paused or not, and with \<^verbatim>\<open>AdPlaying\<close> either subscribed
  or never subscribed, \<^verbatim>\<open>resumeAd\<close> returns having started playback and called the
  subscriber once (nothing, if there never was one); the linear adapter has also
  started a new interval timer, the non-linear one has added now - pauseStartTime to the
  paused time. (After \<^verbatim>\<open>unsubscribe\<close> the dispatch throws, which is C1.) These calls out of
  turn are absorbed, changing nothing and throwing nothing: \<^verbatim>\<open>pauseAd\<close> on the
  non-linear adapter while the ad is not linear, \<^verbatim>\<open>skipAd\<close> while the ad is not
  skippable, \<^verbatim>\<open>collapseAd\<close> while the ad is not expanded.
\<close>

theorem out_of_turn_calls_not_absorbed:
  "(videoSlot s = None \<longrightarrow> thrown (resumeAd s) = Some TypeError)
   \<and> (videoSlot t = None \<longrightarrow> thrown (nl_resumeAd now t) = Some TypeError)
   \<and> (videoSlot s = Some v \<and> eventsCallbacks s ''AdPlaying'' = Some (Fn f)
      \<longrightarrow> resumeAd s = Inr (s\<lparr>videoSlot := Some (v\<lparr>paused := False\<rparr>),
             calls := calls s @
               [\<lparr>inv_event = ''AdPlaying'', inv_fn = f, inv_args = [], inv_seen = attributes s\<rparr>],
             intervalId := Some (Suc (timerCount s)),
             intervals := intervals s @ [Suc (timerCount s)],
             timerCount := Suc (timerCount s)\<rparr>))
   \<and> (videoSlot s = Some v \<and> eventsCallbacks s ''AdPlaying'' = None
      \<longrightarrow> resumeAd s = Inr (s\<lparr>videoSlot := Some (v\<lparr>paused := False\<rparr>),
             intervalId := Some (Suc (timerCount s)),
             intervals := intervals s @ [Suc (timerCount s)],
             timerCount := Suc (timerCount s)\<rparr>))
   \<and> (videoSlot t = Some w \<and> eventCallbacks t ''AdPlaying'' = Some (Fn g)
      \<longrightarrow> nl_resumeAd now t = Inr (t\<lparr>isPaused := False,
             timePaused := js_add (timePaused t) (js_sub (Num now) (pauseStartTime t)),
             videoSlot := Some (w\<lparr>paused := False\<rparr>),
             calls := calls t @
               [\<lparr>inv_event = ''AdPlaying'', inv_fn = g, inv_args = [], inv_seen = attributes t\<rparr>]\<rparr>))
   \<and> (videoSlot t = Some w \<and> eventCallbacks t ''AdPlaying'' = None
      \<longrightarrow> nl_resumeAd now t = Inr (t\<lparr>isPaused := False,
             timePaused := js_add (timePaused t) (js_sub (Num now) (pauseStartTime t)),
             videoSlot := Some (w\<lparr>paused := False\<rparr>)\<rparr>))
   \<and> (\<not> linear_attr (attributes t) \<longrightarrow> nl_pauseAd now t = Inr t)
   \<and> (\<not> skippableState (attributes s) \<longrightarrow> skipAd s = Inr s)
   \<and> (\<not> skippableState (attributes t) \<longrightarrow> nl_skipAd t = Inr t)
   \<and> (\<not> expanded (attributes s) \<longrightarrow> collapseAd s = Inr s)
   \<and> (\<not> expanded (attributes t) \<longrightarrow> nl_collapseAd t = Inr t)"
  using collapseAd_unexpanded(1) [of s] collapseAd_unexpanded(2) [of t]
  by (simp add: resumeAd_def nl_resumeAd_def nl_pauseAd_def skipAd_def nl_skipAd_def
      callEvent_def call_property_def invokeCallback_def nl_call_property_def dom_def Let_def)

text \<open>The witness: the new adapters (no video slot, not skippable, not expanded, not
  linear), the loaded sample adapters (never started, never paused) with their
  subscriber, and the same adapters with no subscriber.\<close>

theorem out_of_turn_calls_not_absorbed_witness:
  "thrown (resumeAd new_VpaidLinearAd) = Some TypeError
   \<and> thrown (nl_resumeAd 5 new_VpaidNonLinear) = Some TypeError
   \<and> map inv_event (calls (state_of (resumeAd linear_loaded))) = [''AdLoaded'', ''AdPlaying'']
   \<and> map inv_event (calls (state_of (nl_resumeAd 5 nl_loaded))) = [''AdLoaded'', ''AdPlaying'']
   \<and> map inv_event (calls (state_of (resumeAd (linear_loaded\<lparr>eventsCallbacks := Map.empty\<rparr>))))
       = [''AdLoaded'']
   \<and> map inv_event (calls (state_of (nl_resumeAd 5 (nl_loaded\<lparr>eventCallbacks := Map.empty\<rparr>))))
       = [''AdLoaded'']
   \<and> nl_pauseAd 5 new_VpaidNonLinear = Inr new_VpaidNonLinear
   \<and> skipAd new_VpaidLinearAd = Inr new_VpaidLinearAd
   \<and> nl_skipAd new_VpaidNonLinear = Inr new_VpaidNonLinear
   \<and> collapseAd new_VpaidLinearAd = Inr new_VpaidLinearAd
   \<and> nl_collapseAd new_VpaidNonLinear = Inr new_VpaidNonLinear"
proof -
  have a: "videoSlot new_VpaidLinearAd = None" "videoSlot new_VpaidNonLinear = None"
    "\<not> linear_attr (attributes new_VpaidNonLinear)"
    "\<not> skippableState (attributes new_VpaidLinearAd)"
    "\<not> skippableState (attributes new_VpaidNonLinear)"
    "\<not> expanded (attributes new_VpaidLinearAd)"
    "\<not> expanded (attributes new_VpaidNonLinear)"
    by (simp_all add: new_VpaidLinearAd_def new_VpaidNonLinear_def new_attributes_def
        new_nl_attributes_def)
  have b: "map inv_event (calls nl_loaded) = [''AdLoaded'']"
    "map inv_event (calls linear_loaded) = [''AdLoaded'']"
    by (simp_all add: nl_loaded_def nl_defs linear_loaded_def linear_defs)
  show ?thesis
    using out_of_turn_calls_not_absorbed [of new_VpaidLinearAd new_VpaidNonLinear 5]
      out_of_turn_calls_not_absorbed [of linear_loaded nl_loaded 5
        "sample_video\<lparr>src := Some ''a.mp4'', listeners := [''timeupdate'', ''ended'', ''play'']\<rparr>"
        1 "sample_video\<lparr>css_display := Some ''none''\<rparr>" 1]
      out_of_turn_calls_not_absorbed [of "linear_loaded\<lparr>eventsCallbacks := Map.empty\<rparr>"
        "nl_loaded\<lparr>eventCallbacks := Map.empty\<rparr>" 5
        "sample_video\<lparr>src := Some ''a.mp4'', listeners := [''timeupdate'', ''ended'', ''play'']\<rparr>"
        1 "sample_video\<lparr>css_display := Some ''none''\<rparr>" 1]
      a b linear_loaded_facts nl_loaded_facts in_host_events
    by simp
qed

text \<open>C4 as stated fails. \<^verbatim>\<open>resumeAd\<close> on a new adapter throws in both classes, and
  the non-linear one has changed \<^verbatim>\<open>timePaused_\<close> by then. \<^verbatim>\<open>resumeAd\<close> on the loaded
  sample adapters, which were never started or paused, calls the \<^verbatim>\<open>AdPlaying\<close>
  subscriber, and the linear one has started interval 1.\<close>

theorem resumeAd_out_of_turn_not_absorbed:
  "thrown (resumeAd new_VpaidLinearAd) = Some TypeError
   \<and> thrown (nl_resumeAd 0 new_VpaidNonLinear) = Some TypeError
   \<and> timePaused (state_of (nl_resumeAd 0 new_VpaidNonLinear)) \<noteq> timePaused new_VpaidNonLinear
   \<and> map inv_event (calls (state_of (resumeAd linear_loaded))) = [''AdLoaded'', ''AdPlaying'']
   \<and> intervals (state_of (resumeAd linear_loaded)) = [1]
   \<and> map inv_event (calls (state_of (nl_resumeAd 0 nl_loaded))) = [''AdLoaded'', ''AdPlaying'']"
proof -
  have "map inv_event (calls (state_of (resumeAd linear_loaded))) = [''AdLoaded'', ''AdPlaying'']
    \<and> intervals (state_of (resumeAd linear_loaded)) = [1]"
    by (simp add: resumeAd_def linear_loaded_def linear_defs)
  moreover have
    "map inv_event (calls (state_of (nl_resumeAd 0 nl_loaded))) = [''AdLoaded'', ''AdPlaying'']"
    by (simp add: nl_resumeAd_def nl_loaded_def nl_defs)
  ultimately show ?thesis
    by (simp add: resumeAd_def nl_resumeAd_def new_VpaidLinearAd_def new_VpaidNonLinear_def
        js_sub_def)
qed

section \<open>C5: expandAd and collapseAd\<close>

text \<open>
  C5, as amended. In both adapters \<^verbatim>\<open>expandAd\<close> sets the expanded flag, whatever
  \<^verbatim>\<open>elem\<close> is. When \<^verbatim>\<open>elem\<close> is an object it requests full screen only if the
  object has \<^verbatim>\<open>requestFullscreen\<close> (the guard of the source), and then calls the
  subscriber of \<^verbatim>\<open>AdExpanded\<close> once, which sees the flag set. \<^verbatim>\<open>collapseAd\<close> clears
  the flag and calls nothing.
\<close>

theorem expandAd_requests_fullscreen_if_offered:
  "expanded (attributes (state_of (expandAd elem s)))
   \<and> expanded (attributes (state_of (nl_expandAd elem t)))
   \<and> (eventsCallbacks s ''AdExpanded'' = Some (Fn f)
      \<longrightarrow> expandAd (ElemObject has) s =
           Inr (s\<lparr>attributes := (attributes s)\<lparr>expanded := True\<rparr>,
                  fullscreenRequests := (if has then Suc (fullscreenRequests s)
                                         else fullscreenRequests s),
                  calls := calls s @
                    [\<lparr>inv_event = ''AdExpanded'', inv_fn = f, inv_args = [],
                      inv_seen = (attributes s)\<lparr>expanded := True\<rparr>\<rparr>]\<rparr>))
   \<and> (eventCallbacks t ''AdExpanded'' = Some (Fn g)
      \<longrightarrow> nl_expandAd (ElemObject has) t =
           Inr (t\<lparr>attributes := (attributes t)\<lparr>expanded := True\<rparr>,
                  fullscreenRequests := (if has then Suc (fullscreenRequests t)
                                         else fullscreenRequests t),
                  calls := calls t @
                    [\<lparr>inv_event = ''AdExpanded'', inv_fn = g, inv_args = [],
                      inv_seen = (attributes t)\<lparr>expanded := True\<rparr>\<rparr>]\<rparr>))
   \<and> collapseAd s = Inr (s\<lparr>attributes := (attributes s)\<lparr>expanded := False\<rparr>\<rparr>)
   \<and> nl_collapseAd t = Inr (t\<lparr>attributes := (attributes t)\<lparr>expanded := False\<rparr>\<rparr>)"
  by (cases elem)
     (simp_all add: expandAd_def nl_expandAd_def collapseAd_def nl_collapseAd_def
        callEvent_def call_property_def invokeCallback_def nl_call_property_def dom_def Let_def
        split: option.splits binding.splits)

text \<open>The witness: both loaded sample adapters, with an \<^verbatim>\<open>elem\<close> that offers
  \<^verbatim>\<open>requestFullscreen\<close>.\<close>

theorem expandAd_requests_fullscreen_if_offered_witness:
  "fullscreenRequests (state_of (expandAd (ElemObject True) linear_loaded)) = 1
   \<and> map inv_event (calls (state_of (expandAd (ElemObject True) linear_loaded)))
       = [''AdLoaded'', ''AdExpanded'']
   \<and> fullscreenRequests (state_of (nl_expandAd (ElemObject True) nl_loaded)) = 1
   \<and> map inv_event (calls (state_of (nl_expandAd (ElemObject True) nl_loaded)))
       = [''AdLoaded'', ''AdExpanded'']"
proof -
  have b: "map inv_event (calls nl_loaded) = [''AdLoaded'']" "fullscreenRequests nl_loaded = 0"
    "map inv_event (calls linear_loaded) = [''AdLoaded'']" "fullscreenRequests linear_loaded = 0"
    by (simp_all add: nl_loaded_def nl_defs linear_loaded_def linear_defs)
  show ?thesis
    using expandAd_requests_fullscreen_if_offered [of _ linear_loaded nl_loaded 1 True 1]
      b linear_loaded_facts nl_loaded_facts in_host_events
    by simp
qed

text \<open>C5 as stated fails: with an \<^verbatim>\<open>elem\<close> that has no \<^verbatim>\<open>requestFullscreen\<close>,
  \<^verbatim>\<open>expandAd\<close> dispatches \<^verbatim>\<open>AdExpanded\<close> and requests nothing.\<close>

theorem expandAd_without_requestFullscreen:
  "fullscreenRequests (state_of (expandAd (ElemObject False) linear_loaded)) = 0
   \<and> map inv_event (calls (state_of (expandAd (ElemObject False) linear_loaded)))
       = [''AdLoaded'', ''AdExpanded'']
   \<and> fullscreenRequests (state_of (nl_expandAd (ElemObject False) nl_loaded)) = 0
   \<and> map inv_event (calls (state_of (nl_expandAd (ElemObject False) nl_loaded)))
       = [''AdLoaded'', ''AdExpanded'']"
  by (simp add: expandAd_def nl_expandAd_def linear_loaded_def linear_defs nl_loaded_def nl_defs)

section \<open>C6: setAdVolume\<close>

text \<open>
  C6 says that \<^verbatim>\<open>setAdVolume\<close> commits the volume and then dispatches
  \<^verbatim>\<open>AdVolumeChange\<close>, in both adapters. The non-linear adapter dispatches the name
  \<^verbatim>\<open>AdVolumeChanged\<close> instead: on the loaded sample adapter, whose host subscribed to
  \<^verbatim>\<open>AdVolumeChange\<close>, \<^verbatim>\<open>setAdVolume(30)\<close> commits the volume and calls nothing. The
  linear adapter, on the same input, calls the \<^verbatim>\<open>AdVolumeChange\<close> subscriber.
\<close>

theorem nl_setAdVolume_dispatches_other_name:
  "eventCallbacks nl_loaded ''AdVolumeChange'' = Some (Fn 1)
   \<and> nl_setAdVolume (Num 30) nl_loaded =
       Inr (nl_loaded\<lparr>attributes := (attributes nl_loaded)\<lparr>volume := Num 30\<rparr>\<rparr>)
   \<and> calls (state_of (nl_setAdVolume (Num 30) nl_loaded)) = calls nl_loaded
   \<and> map inv_event (calls (state_of (setAdVolume (Num 30) linear_loaded)))
       = [''AdLoaded'', ''AdVolumeChange'']"
proof -
  have "map inv_event (calls (state_of (setAdVolume (Num 30) linear_loaded)))
       = [''AdLoaded'', ''AdVolumeChange'']"
    by (simp add: setAdVolume_def set_media_volume_def linear_loaded_def linear_defs)
  then show ?thesis
    by (simp add: nl_setAdVolume_def invokeCallback_def dom_def nl_loaded_facts in_host_events)
qed

section \<open>C7: remaining time of the non-linear adapter\<close>

lemma int_in_doubles: "\<bar>m\<bar> < 2 ^ 53 \<Longrightarrow> of_int m \<in> doubles"
proof -
  assume "\<bar>m\<bar> < 2 ^ 53"
  then have "of_int m = of_int m * 2 powr of_int 0 \<and> \<bar>m\<bar> < 2 ^ 53
      \<and> - 1074 \<le> (0::int) \<and> (0::int) \<le> 971"
    by simp
  then show ?thesis unfolding doubles_def by blast
qed

lemma numeral_in_doubles: "(numeral k :: int) < 2 ^ 53 \<Longrightarrow> (numeral k :: real) \<in> doubles"
  using int_in_doubles [of "numeral k"] by simp

lemma to_double_keeps [simp]:
  "to_double rnd NaN = NaN"
  "x \<in> doubles \<Longrightarrow> to_double rnd (Num x) = Num x"
  by (simp_all add: to_double_def)

lemma invokeCallback_keeps:
  "attributes (state_of (invokeCallback e s)) = attributes s"
  "isPaused (state_of (invokeCallback e s)) = isPaused s"
  "pauseStartTime (state_of (invokeCallback e s)) = pauseStartTime s"
  by (auto simp: invokeCallback_def nl_call_property_def split: option.splits binding.splits)

lemma nl_pauseAd_guard: "\<not> linear_attr (attributes s) \<Longrightarrow> nl_pauseAd tp s = Inr s"
  by (simp add: nl_pauseAd_def)

text \<open>No event of a run makes the ad linear, sets \<^verbatim>\<open>isPaused_\<close> or assigns
  \<^verbatim>\<open>pauseStartTime_\<close>.\<close>

lemma nl_step_keeps:
  assumes "\<not> linear_attr (attributes s)" "\<not> isPaused s" "pauseStartTime s = Undefined"
  shows "\<not> linear_attr (attributes (nl_step rnd c s)) \<and> \<not> isPaused (nl_step rnd c s)
    \<and> pauseStartTime (nl_step rnd c s) = Undefined"
proof (cases c)
  case (Call_initAd w h vm bitrate creativeData env_slot env_videoSlot)
  then show ?thesis using assms
    by (auto simp: nl_initAd_def Let_def invokeCallback_def nl_call_property_def
        split: option.splits binding.splits)
next
  case (Call_startAd now)
  then show ?thesis using assms
    by (auto simp: nl_startAd_def invokeCallback_def nl_call_property_def
        split: option.splits binding.splits list.splits)
next
  case Call_stopAd
  then show ?thesis using assms by (simp add: nl_stopAd_def setTimeout_def)
next
  case (Call_setAdVolume v)
  then show ?thesis using assms by (simp add: nl_setAdVolume_def invokeCallback_keeps)
next
  case (Call_resizeAd w h vm)
  then show ?thesis using assms
    by (auto simp: nl_resizeAd_def nl_updateVideoPlayerSize_def invokeCallback_def
        nl_call_property_def split: option.splits binding.splits)
next
  case (Call_pauseAd now)
  then show ?thesis using assms by (simp add: nl_pauseAd_guard)
next
  case (Call_resumeAd now)
  then show ?thesis using assms
    by (auto simp: nl_resumeAd_def Let_def invokeCallback_def nl_call_property_def
        split: option.splits binding.splits)
next
  case (Call_expandAd elem)
  then show ?thesis using assms
    by (auto simp: nl_expandAd_def Let_def invokeCallback_def nl_call_property_def
        split: option.splits binding.splits elem_global.splits)
next
  case Call_collapseAd
  then show ?thesis using assms by (simp add: nl_collapseAd_def)
next
  case Call_skipAd
  then show ?thesis using assms by (simp add: nl_skipAd_def invokeCallback_keeps)
next
  case (Call_subscribe aCallback eventName)
  then show ?thesis using assms by (simp add: nl_subscribe_def)
next
  case (Call_unsubscribe eventName)
  then show ?thesis using assms by (simp add: nl_unsubscribe_def)
next
  case (Call_getAdRemainingTime now)
  then show ?thesis using assms by (simp add: nl_getAdRemainingTime_def Let_def)
next
  case Click_container
  then show ?thesis using assms
    by (auto simp: adsOnClick_def invokeCallback_def nl_call_property_def
        split: option.splits binding.splits)
next
  case Timeout_due
  then show ?thesis using assms
    by (auto simp: nl_runTimeout_def invokeCallback_def nl_call_property_def
        split: option.splits binding.splits list.splits)
qed

lemma nl_run_keeps:
  assumes "\<not> linear_attr (attributes s)" "\<not> isPaused s" "pauseStartTime s = Undefined"
  shows "\<not> linear_attr (attributes (nl_run rnd cs s)) \<and> \<not> isPaused (nl_run rnd cs s)
    \<and> pauseStartTime (nl_run rnd cs s) = Undefined"
  using assms
proof (induction cs arbitrary: s)
  case Nil
  then show ?case by simp
next
  case (Cons c cs)
  from nl_step_keeps [OF Cons.prems, of rnd c] show ?case
    by (simp add: Cons.IH)
qed

lemma nl_reachable:
  "\<not> linear_attr (attributes (nl_run rnd cs new_VpaidNonLinear))"
  "\<not> isPaused (nl_run rnd cs new_VpaidNonLinear)"
  "pauseStartTime (nl_run rnd cs new_VpaidNonLinear) = Undefined"
  using nl_run_keeps [of new_VpaidNonLinear rnd cs]
  by (simp_all add: new_VpaidNonLinear_def new_nl_attributes_def)

lemma nl_getAdRemainingTime_unpaused:
  assumes "\<not> isPaused s"
  shows "nl_getAdRemainingTime rnd t s =
    (spec_remaining rnd t s, s\<lparr>lastRemainingTime := spec_remaining rnd t s\<rparr>)"
  using assms by (simp add: nl_getAdRemainingTime_def spec_remaining_def Let_def)

lemma spec_remaining_lastRemainingTime [simp]:
  "spec_remaining rnd t (s\<lparr>lastRemainingTime := x\<rparr>) = spec_remaining rnd t s"
  by (simp add: spec_remaining_def)

lemma two_samples_unpaused:
  assumes "\<not> isPaused s"
  shows "fst (nl_getAdRemainingTime rnd t1 s) = spec_remaining rnd t1 s
    \<and> fst (nl_getAdRemainingTime rnd t2 (snd (nl_getAdRemainingTime rnd t1 s)))
        = spec_remaining rnd t2 s"
  using assms by (simp add: nl_getAdRemainingTime_unpaused)

text \<open>The sample adapter is such a run: twenty subscriptions, \<^verbatim>\<open>initAd\<close>, and
  \<^verbatim>\<open>startAd\<close> at time 0.\<close>

lemma nl_started_run:
  "nl_started =
     nl_run rnd (map (Call_subscribe 1) host_events @
         [Call_initAd (Num 640) (Num 480) ''normal'' (Num 256) (Some sample_creative)
            (Some []) (Some sample_video),
          Call_startAd 0])
       new_VpaidNonLinear"
  by (simp add: nl_started_def nl_loaded_def host_events_def)

lemma nl_started_clock:
  "startTime nl_started = Num 0" "timePaused nl_started = Num 0"
  "duration (attributes nl_started) = Num 10" "\<not> linear_attr (attributes nl_started)"
  "\<not> isPaused nl_started" "pauseStartTime nl_started = Undefined"
  by (simp_all add: nl_started_def nl_loaded_def nl_defs)

lemma nl_started_remaining:
  "spec_remaining rnd 2000 nl_started = Num 8" "spec_remaining rnd 3000 nl_started = Num 7"
  "spec_remaining rnd 5000 nl_started = Num 5"
  by (simp_all add: spec_remaining_def nl_started_clock js_sub_def numeral_in_doubles)

text \<open>After a \<^verbatim>\<open>pauseAd\<close> that returned at its guard, \<^verbatim>\<open>pauseStartTime_\<close> is still
  undefined, and \<^verbatim>\<open>resumeAd\<close> makes \<^verbatim>\<open>timePaused_\<close> \<open>NaN\<close>.\<close>

lemma nl_resumeAd_timePaused:
  "timePaused (state_of (nl_resumeAd tr s)) =
     js_add (timePaused s) (js_sub (Num tr) (pauseStartTime s))"
  "\<not> isPaused (state_of (nl_resumeAd tr s))"
  "startTime (state_of (nl_resumeAd tr s)) = startTime s"
  "attributes (state_of (nl_resumeAd tr s)) = attributes s"
  by (auto simp: nl_resumeAd_def invokeCallback_def nl_call_property_def Let_def
      split: option.splits binding.splits)

lemma js_add_NaN [simp]: "js_add x NaN = NaN"
  by (cases x) simp_all

lemma nl_resumeAd_after_guarded_pauseAd:
  "timePaused (state_of (nl_resumeAd tr (state_of (nl_pauseAd tp
     (nl_run rnd cs new_VpaidNonLinear))))) = NaN"
  by (simp add: nl_pauseAd_guard nl_reachable nl_resumeAd_timePaused js_sub_def)

text \<open>
  C7, as amended. \<^verbatim>\<open>pauseAd\<close> of the non-linear adapter returns at its guard while the
  ad is not linear ("cannot pause a non-linear ad"), leaving the adapter as it was. After
  any sequence of host calls, clicks and timeouts on a new adapter the ad is not linear
  and not paused, so \<^verbatim>\<open>pauseAd\<close> freezes nothing: two successive calls of
  \<^verbatim>\<open>getAdRemainingTime\<close> after it, at times \<open>t1\<close> and \<open>t2\<close>, each return the value
  computed from the clock, duration - (now - startTime - timePaused) / 1000 in double
  arithmetic, as they would have without the \<^verbatim>\<open>pauseAd\<close>. For any adapter that is not
  paused, \<^verbatim>\<open>getAdRemainingTime\<close> returns that value and stores it.
\<close>

theorem remaining_time_not_frozen_by_pauseAd:
  "(\<not> linear_attr (attributes s) \<longrightarrow> nl_pauseAd tp s = Inr s)
   \<and> \<not> linear_attr (attributes (nl_run rnd cs new_VpaidNonLinear))
   \<and> \<not> isPaused (nl_run rnd cs new_VpaidNonLinear)
   \<and> nl_pauseAd tp (nl_run rnd cs new_VpaidNonLinear) = Inr (nl_run rnd cs new_VpaidNonLinear)
   \<and> fst (nl_getAdRemainingTime rnd t1
        (state_of (nl_pauseAd tp (nl_run rnd cs new_VpaidNonLinear))))
       = spec_remaining rnd t1 (nl_run rnd cs new_VpaidNonLinear)
   \<and> fst (nl_getAdRemainingTime rnd t2 (snd (nl_getAdRemainingTime rnd t1
        (state_of (nl_pauseAd tp (nl_run rnd cs new_VpaidNonLinear))))))
       = spec_remaining rnd t2 (nl_run rnd cs new_VpaidNonLinear)
   \<and> (\<not> isPaused s
      \<longrightarrow> nl_getAdRemainingTime rnd t1 s =
            (spec_remaining rnd t1 s, s\<lparr>lastRemainingTime := spec_remaining rnd t1 s\<rparr>))"
  using two_samples_unpaused [of "nl_run rnd cs new_VpaidNonLinear" rnd t1 t2]
    nl_getAdRemainingTime_unpaused [of s rnd t1]
  by (simp add: nl_pauseAd_guard nl_reachable)

text \<open>The witness: the started sample adapter, which is a run, with \<^verbatim>\<open>pauseAd\<close> at
  1000 and samples at 2000 and 5000.\<close>

theorem remaining_time_not_frozen_by_pauseAd_witness:
  "nl_pauseAd 1000 nl_started = Inr nl_started
   \<and> fst (nl_getAdRemainingTime Num 2000 (state_of (nl_pauseAd 1000 nl_started))) = Num 8
   \<and> fst (nl_getAdRemainingTime Num 5000 (snd (nl_getAdRemainingTime Num 2000
        (state_of (nl_pauseAd 1000 nl_started))))) = Num 5
   \<and> lastRemainingTime (snd (nl_getAdRemainingTime Num 5000 nl_started)) = Num 5"
proof -
  let ?cs = "map (Call_subscribe 1) host_events @
           [Call_initAd (Num 640) (Num 480) ''normal'' (Num 256) (Some sample_creative)
              (Some []) (Some sample_video),
            Call_startAd 0]"
  have run: "nl_run Num ?cs new_VpaidNonLinear = nl_started"
    by (rule nl_started_run [symmetric])
  note first = remaining_time_not_frozen_by_pauseAd [of nl_started 1000 Num ?cs 2000 5000]
  note second = remaining_time_not_frozen_by_pauseAd [of nl_started 1000 Num ?cs 5000 5000]
  have a: "nl_pauseAd 1000 nl_started = Inr nl_started"
    using first nl_started_clock(4) by blast
  have b: "fst (nl_getAdRemainingTime Num 2000 (state_of (nl_pauseAd 1000 nl_started)))
      = spec_remaining Num 2000 nl_started"
    using first unfolding run by blast
  have c: "fst (nl_getAdRemainingTime Num 5000 (snd (nl_getAdRemainingTime Num 2000
        (state_of (nl_pauseAd 1000 nl_started))))) = spec_remaining Num 5000 nl_started"
    using first unfolding run by blast
  have d: "nl_getAdRemainingTime Num 5000 nl_started =
      (spec_remaining Num 5000 nl_started,
       nl_started\<lparr>lastRemainingTime := spec_remaining Num 5000 nl_started\<rparr>)"
    using second nl_started_clock(5) by blast
  show ?thesis
    using a b c d by (simp add: nl_started_remaining)
qed

text \<open>C7 as stated fails on the started sample adapter, whatever the rounding (every
  intermediate result is a small integer): the two samples taken after \<^verbatim>\<open>pauseAd\<close>
  differ, and after \<^verbatim>\<open>resumeAd\<close> the remaining time is \<open>NaN\<close>.\<close>

theorem nl_pauseAd_does_not_freeze_nonlinear:
  "fst (nl_getAdRemainingTime Num 2000 (state_of (nl_pauseAd 1000 nl_started))) = Num 8
   \<and> fst (nl_getAdRemainingTime Num 3000
       (snd (nl_getAdRemainingTime Num 2000 (state_of (nl_pauseAd 1000 nl_started))))) = Num 7
   \<and> fst (nl_getAdRemainingTime Num 4000
       (state_of (nl_resumeAd 3000 (state_of (nl_pauseAd 1000 nl_started))))) = NaN"
proof -
  let ?r = "state_of (nl_resumeAd 3000 nl_started)"
  have r: "\<not> isPaused ?r" "timePaused ?r = NaN" "startTime ?r = Num 0"
    "duration (attributes ?r) = Num 10"
    by (simp_all add: nl_resumeAd_timePaused nl_started_clock js_sub_def)
  have "spec_remaining Num 4000 ?r = NaN"
    by (simp add: spec_remaining_def r js_sub_def numeral_in_doubles)
  then show ?thesis
    using two_samples_unpaused [of nl_started Num 2000 3000]
      two_samples_unpaused [of ?r Num 4000 4000] r
    by (simp add: nl_pauseAd_guard nl_started_clock nl_started_remaining)
qed

section \<open>C8: duration changes\<close>

text \<open>The two comparisons themselves do what C8 says: equal durations change nothing,
  different ones commit the new value and call the \<^verbatim>\<open>AdDurationChange\<close> subscriber
  once, which sees the new value.\<close>

lemma syncDuration_same:
  "\<not> js_ne (duration (attributes s)) (media_duration v) \<Longrightarrow> syncDuration v s = Inr s"
  by (simp add: syncDuration_def)

lemma syncDuration_changed:
  "js_ne (duration (attributes s)) (media_duration v) \<Longrightarrow>
   eventsCallbacks s ''AdDurationChange'' = Some (Fn f) \<Longrightarrow>
   syncDuration v s =
     Inr (s\<lparr>attributes := (attributes s)\<lparr>duration := media_duration v\<rparr>,
            calls := calls s @
              [\<lparr>inv_event = ''AdDurationChange'', inv_fn = f, inv_args = [],
                inv_seen = (attributes s)\<lparr>duration := media_duration v\<rparr>\<rparr>]\<rparr>)"
  by (simp add: syncDuration_def callEvent_def call_property_def dom_def)

lemma loadedmetadataHandler_same:
  "videoSlot t = Some v \<Longrightarrow> \<not> js_ne (duration (attributes t)) (media_duration v) \<Longrightarrow>
   loadedmetadataHandler now t = Inr t"
  by (simp add: loadedmetadataHandler_def)

lemma loadedmetadataHandler_changed:
  "videoSlot t = Some v \<Longrightarrow> js_ne (duration (attributes t)) (media_duration v) \<Longrightarrow>
   eventCallbacks t ''AdDurationChange'' = Some (Fn f) \<Longrightarrow>
   loadedmetadataHandler now t =
     Inr (t\<lparr>attributes := (attributes t)\<lparr>duration := media_duration v\<rparr>,
            startTime := Num now, timePaused := Num 0,
            calls := calls t @
              [\<lparr>inv_event = ''AdDurationChange'', inv_fn = f, inv_args = [],
                inv_seen = (attributes t)\<lparr>duration := media_duration v\<rparr>\<rparr>]\<rparr>)"
  by (simp add: loadedmetadataHandler_def invokeCallback_def nl_call_property_def dom_def)

text \<open>
  C8 says that a media-reported duration different from the stored one is committed and
  fires \<^verbatim>\<open>AdDurationChange\<close> once, in both adapters. In the linear adapter the
  comparison sits behind the early return of \<^verbatim>\<open>timeUpdateHandler_\<close>: once the six
  events of the schedule have been reported, a time update returns before it. On the
  sample adapter played to its end (cursor 6, stored duration 6, a subscriber for
  \<^verbatim>\<open>AdDurationChange\<close>), a time update with a media duration of 30 leaves the stored
  duration at 6 and calls nothing; the same duration reported before the end is committed.
\<close>

theorem duration_change_lost_after_last_quartile:
  "lastQuartileIndex linear_completed = 6
   \<and> duration (attributes linear_completed) = Num 6
   \<and> eventsCallbacks linear_completed ''AdDurationChange'' = Some (Fn 1)
   \<and> duration (attributes (feed [(Num 6, Num 30)] linear_completed)) = Num 6
   \<and> calls (feed [(Num 6, Num 30)] linear_completed) = calls linear_completed
   \<and> duration (attributes (feed [(Num 0, Num 30)] linear_started)) = Num 30"
proof -
  have "duration (attributes (feed [(Num 0, Num 30)] linear_started)) = Num 30"
    by (simp add: linear_started_def linear_loaded_def linear_defs feed_defs)
  then show ?thesis
    using linear_completed_facts
    by (simp add: media_sample_def timeUpdateHandler_def quartileEvents_def)
qed

section \<open>C9: timers of the linear adapter\<close>

text \<open>\<^verbatim>\<open>stopAd\<close> never throws and calls no callback itself: it queues the dispatch of
  \<^verbatim>\<open>AdStopped\<close> with a delay of 75, and it cancels the interval whose handle is in
  \<^verbatim>\<open>intervalId_\<close>. \<^verbatim>\<open>pauseAd\<close> cancels that interval too, after the dispatch of
  \<^verbatim>\<open>AdPaused\<close>.\<close>

lemma stopAd_defers:
  "thrown (stopAd s) = None
   \<and> calls (state_of (stopAd s)) = calls s
   \<and> timeouts (state_of (stopAd s)) = timeouts s @ [(Suc (timerCount s), 75, ''AdStopped'')]
   \<and> (intervalId s = Some h \<and> h \<noteq> 0 \<longrightarrow> h \<notin> set (intervals (state_of (stopAd s))))"
  by (simp add: stopAd_def setTimeout_def clearInterval_def truthy_handle_def Let_def)

lemma nl_stopAd_defers:
  "nl_stopAd t = Inr (t\<lparr>timeouts := timeouts t @ [(Suc (timerCount t), 75, ''AdStopped'')],
                        timerCount := Suc (timerCount t)\<rparr>)"
  by (simp add: nl_stopAd_def setTimeout_def)

lemma pauseAd_clears:
  "videoSlot s = Some v \<Longrightarrow> eventsCallbacks s ''AdPaused'' \<noteq> Some JsNull \<Longrightarrow>
   intervalId s = Some h \<Longrightarrow> h \<noteq> 0 \<Longrightarrow>
   thrown (pauseAd s) = None \<and> h \<notin> set (intervals (state_of (pauseAd s)))"
  by (auto simp: pauseAd_def callEvent_def call_property_def clearInterval_def truthy_handle_def
      split: option.splits binding.splits)

text \<open>No other method of the linear adapter touches the pending tasks: once queued, the
  dispatch of \<^verbatim>\<open>AdStopped\<close> stays queued until it comes due, and then the subscriber
  is called.\<close>

lemma callEvent_timeouts: "timeouts (state_of (callEvent e s)) = timeouts s"
  by (auto simp: callEvent_def call_property_def split: option.splits binding.splits)

lemma call_property_timeouts: "timeouts (state_of (call_property e as s)) = timeouts s"
  by (auto simp: call_property_def split: option.splits binding.splits)

lemma timeouts_kept:
  "timeouts (state_of (startAd s)) = timeouts s"
  "timeouts (state_of (pauseAd s)) = timeouts s"
  "timeouts (state_of (resumeAd s)) = timeouts s"
  "timeouts (state_of (resizeAd w h vm s)) = timeouts s"
  "timeouts (state_of (setAdVolume x s)) = timeouts s"
  "timeouts (state_of (expandAd elem s)) = timeouts s"
  "timeouts (state_of (collapseAd s)) = timeouts s"
  "timeouts (state_of (skipAd s)) = timeouts s"
  "timeouts (state_of (intervalCallback s)) = timeouts s"
  "timeouts (state_of (overlayOnClick s)) = timeouts s"
  "timeouts (subscribe c e s) = timeouts s"
  "timeouts (unsubscribe e s) = timeouts s"
  by (auto simp: startAd_def pauseAd_def resumeAd_def resizeAd_def setAdVolume_def expandAd_def
      collapseAd_def skipAd_def intervalCallback_def overlayOnClick_def subscribe_def
      unsubscribe_def updateVideoPlayerSize_def clearInterval_def Let_def
      callEvent_def call_property_def
      split: option.splits binding.splits list.splits sum.splits elem_global.splits)

lemma timeUpdateHandler_timeouts: "timeouts (state_of (timeUpdateHandler s)) = timeouts s"
  by (auto simp: timeUpdateHandler_def reportQuartile_def syncDuration_def Let_def
      callEvent_def call_property_def
      split: option.splits binding.splits sum.splits)

lemma stopAd_then_timeout:
  assumes "timeouts s = []" "eventsCallbacks s ''AdStopped'' = Some (Fn f)"
  shows "calls (state_of (stopAd s)) = calls s
    \<and> map inv_event (calls (state_of (runTimeout (state_of (stopAd s)))))
        = map inv_event (calls s) @ [''AdStopped'']"
  using assms
  by (simp add: stopAd_def runTimeout_def setTimeout_def clearInterval_def callEvent_def
      call_property_def dom_def Let_def)

text \<open>
  C9 says that \<^verbatim>\<open>stopAd\<close> cancels any outstanding periodic timer. \<^verbatim>\<open>resumeAd\<close>
  starts an interval on every call and keeps only the last handle, without cancelling
  the one it overwrites: after two calls of \<^verbatim>\<open>resumeAd\<close> on the started sample
  adapter the intervals 1 and 2 run, \<^verbatim>\<open>stopAd\<close> cancels 2 only, and the callback of
  interval 1 still dispatches \<^verbatim>\<open>AdRemainingTimeChange\<close> after the stop.
\<close>

theorem stopAd_leaves_earlier_interval_running:
  "intervals (state_of (resumeAd (state_of (resumeAd linear_started)))) = [1, 2]
   \<and> intervalId (state_of (resumeAd (state_of (resumeAd linear_started)))) = Some 2
   \<and> intervals (state_of (stopAd (state_of (resumeAd (state_of (resumeAd linear_started)))))) = [1]
   \<and> timeouts (state_of (stopAd (state_of (resumeAd (state_of (resumeAd linear_started))))))
       = [(3, 75, ''AdStopped'')]
   \<and> map inv_event (calls (state_of (intervalCallback
        (state_of (stopAd (state_of (resumeAd (state_of (resumeAd linear_started)))))))))
       = [''AdLoaded'', ''AdStarted'', ''AdPlaying'', ''AdPlaying'', ''AdRemainingTimeChange'']"
  by (simp add: resumeAd_def stopAd_def intervalCallback_def setTimeout_def clearInterval_def
      truthy_handle_def linear_started_def linear_loaded_def linear_defs js_sub_def)

section \<open>C10: the frame of resizeAd\<close>

lemma resizeAd_attributes:
  "attributes (state_of (resizeAd w h vm s)) =
     (attributes s)\<lparr>width := w, height := h, viewMode := vm\<rparr>"
  by (simp add: resizeAd_def updateVideoPlayerSize_def callEvent_frame(2) split: option.splits)

lemma nl_resizeAd_attributes:
  "attributes (state_of (nl_resizeAd w h vm t)) =
     (attributes t)\<lparr>width := w, height := h, viewMode := vm\<rparr>"
  by (simp add: nl_resizeAd_def nl_updateVideoPlayerSize_def invokeCallback_def
      nl_call_property_def split: option.splits binding.splits)

lemma resizeAd_calls:
  "eventsCallbacks s ''AdSizeChange'' = Some (Fn f) \<Longrightarrow>
   thrown (resizeAd w h vm s) = None
   \<and> calls (state_of (resizeAd w h vm s)) = calls s @
       [\<lparr>inv_event = ''AdSizeChange'', inv_fn = f, inv_args = [],
         inv_seen = (attributes s)\<lparr>width := w, height := h, viewMode := vm\<rparr>\<rparr>]"
  by (simp add: resizeAd_def updateVideoPlayerSize_def callEvent_def call_property_def dom_def
      split: option.splits)

lemma resizeAd_no_subscriber:
  "eventsCallbacks s ''AdSizeChange'' = None \<Longrightarrow>
   thrown (resizeAd w h vm s) = None \<and> calls (state_of (resizeAd w h vm s)) = calls s"
  by (simp add: resizeAd_def updateVideoPlayerSize_def callEvent_def dom_def
      split: option.splits)

lemma nl_resizeAd_calls:
  "videoSlot t = Some v \<Longrightarrow> eventCallbacks t ''AdSizeChange'' = Some (Fn g) \<Longrightarrow>
   thrown (nl_resizeAd w h vm t) = None
   \<and> calls (state_of (nl_resizeAd w h vm t)) = calls t @
       [\<lparr>inv_event = ''AdSizeChange'', inv_fn = g, inv_args = [],
         inv_seen = (attributes t)\<lparr>width := w, height := h, viewMode := vm\<rparr>\<rparr>]"
  by (simp add: nl_resizeAd_def nl_updateVideoPlayerSize_def invokeCallback_def
      nl_call_property_def dom_def)

lemma nl_resizeAd_no_subscriber:
  "videoSlot t = Some v \<Longrightarrow> eventCallbacks t ''AdSizeChange'' = None \<Longrightarrow>
   thrown (nl_resizeAd w h vm t) = None \<and> calls (state_of (nl_resizeAd w h vm t)) = calls t"
  by (simp add: nl_resizeAd_def nl_updateVideoPlayerSize_def invokeCallback_def dom_def)

text \<open>
  C10. For every width, height and view mode, and from every state, \<^verbatim>\<open>resizeAd\<close>
  leaves the three attributes at the values given and every other attribute (volume,
  duration, linear, expanded, skippableState, companions, icons, desiredBitrate,
  remainingTime) as it was, in both adapters. It dispatches \<^verbatim>\<open>AdSizeChange\<close> once: a
  subscriber is called exactly once and sees the new size, and with no subscriber
  nothing is called. (The non-linear adapter needs its video slot for this: it sizes the
  video element before the dispatch.)
\<close>

theorem resizeAd_frame:
  "width (attributes (state_of (resizeAd w h vm s))) = w
   \<and> height (attributes (state_of (resizeAd w h vm s))) = h
   \<and> viewMode (attributes (state_of (resizeAd w h vm s))) = vm
   \<and> other_attributes (attributes (state_of (resizeAd w h vm s))) = other_attributes (attributes s)
   \<and> width (attributes (state_of (nl_resizeAd w h vm t))) = w
   \<and> height (attributes (state_of (nl_resizeAd w h vm t))) = h
   \<and> viewMode (attributes (state_of (nl_resizeAd w h vm t))) = vm
   \<and> other_attributes (attributes (state_of (nl_resizeAd w h vm t)))
       = other_attributes (attributes t)
   \<and> (eventsCallbacks s ''AdSizeChange'' = Some (Fn f)
      \<longrightarrow> thrown (resizeAd w h vm s) = None
        \<and> calls (state_of (resizeAd w h vm s)) = calls s @
            [\<lparr>inv_event = ''AdSizeChange'', inv_fn = f, inv_args = [],
              inv_seen = (attributes s)\<lparr>width := w, height := h, viewMode := vm\<rparr>\<rparr>])
   \<and> (eventsCallbacks s ''AdSizeChange'' = None
      \<longrightarrow> thrown (resizeAd w h vm s) = None \<and> calls (state_of (resizeAd w h vm s)) = calls s)
   \<and> (videoSlot t = Some v \<and> eventCallbacks t ''AdSizeChange'' = Some (Fn g)
      \<longrightarrow> thrown (nl_resizeAd w h vm t) = None
        \<and> calls (state_of (nl_resizeAd w h vm t)) = calls t @
            [\<lparr>inv_event = ''AdSizeChange'', inv_fn = g, inv_args = [],
              inv_seen = (attributes t)\<lparr>width := w, height := h, viewMode := vm\<rparr>\<rparr>])
   \<and> (videoSlot t = Some v \<and> eventCallbacks t ''AdSizeChange'' = None
      \<longrightarrow> thrown (nl_resizeAd w h vm t) = None
        \<and> calls (state_of (nl_resizeAd w h vm t)) = calls t)"
  using resizeAd_calls [of s f w h vm] resizeAd_no_subscriber [of s w h vm]
    nl_resizeAd_calls [of t v g w h vm] nl_resizeAd_no_subscriber [of t v w h vm]
  by (simp add: resizeAd_attributes nl_resizeAd_attributes other_attributes_def)

text \<open>The witness: both loaded sample adapters with their subscriber, and the same
  adapters with no subscriber at all.\<close>

theorem resizeAd_frame_witness:
  "map inv_event (calls (state_of (resizeAd (Num 320) (Num 240) ''fullscreen'' linear_loaded)))
     = [''AdLoaded'', ''AdSizeChange'']
   \<and> map inv_event (calls (state_of (nl_resizeAd (Num 320) (Num 240) ''fullscreen'' nl_loaded)))
     = [''AdLoaded'', ''AdSizeChange'']
   \<and> map inv_event (calls (state_of (resizeAd (Num 320) (Num 240) ''fullscreen''
        (linear_loaded\<lparr>eventsCallbacks := Map.empty\<rparr>)))) = [''AdLoaded'']
   \<and> map inv_event (calls (state_of (nl_resizeAd (Num 320) (Num 240) ''fullscreen''
        (nl_loaded\<lparr>eventCallbacks := Map.empty\<rparr>)))) = [''AdLoaded'']
   \<and> volume (attributes (state_of (resizeAd (Num 320) (Num 240) ''fullscreen'' linear_loaded)))
     = Num 1
   \<and> volume (attributes (state_of (nl_resizeAd (Num 320) (Num 240) ''fullscreen'' nl_loaded)))
     = Num 50"
proof -
  have b: "map inv_event (calls nl_loaded) = [''AdLoaded'']"
    "map inv_event (calls linear_loaded) = [''AdLoaded'']"
    "volume (attributes linear_loaded) = Num 1" "volume (attributes nl_loaded) = Num 50"
    by (simp_all add: nl_loaded_def nl_defs linear_loaded_def linear_defs)
  show ?thesis
    using resizeAd_frame [of "Num 320" "Num 240" "''fullscreen''" linear_loaded nl_loaded 1
        "sample_video\<lparr>css_display := Some ''none''\<rparr>" 1]
      resizeAd_frame [of "Num 320" "Num 240" "''fullscreen''"
        "linear_loaded\<lparr>eventsCallbacks := Map.empty\<rparr>"
        "nl_loaded\<lparr>eventCallbacks := Map.empty\<rparr>" 1
        "sample_video\<lparr>css_display := Some ''none''\<rparr>" 1]
      b linear_loaded_facts nl_loaded_facts in_host_events
    by (simp add: other_attributes_def)
qed

end
